theory Spec2Isabelle
  imports Main
begin

section \<open>Data model of \<open>pkg/cmd/adm/restart.go\<close>\<close>

text \<open>
  A Go \<open>error\<close> value is its message. A function of the source that returns \<open>error\<close>
  either returns \<open>nil\<close>, returns an error, or never returns because \<open>panic(err)\<close>
  unwinds the whole call stack (nothing in the source recovers).
\<close>

datatype err = Err string

datatype 'a outcome = Val 'a | Fail err | Panicked err

text \<open>\<open>map[string]string\<close> label sets, read with \<open>map_of\<close>.\<close>

type_synonym labels = "(string \<times> string) list"

text \<open>\<open>metav1.LabelSelector\<close>: the match-labels part and the match-expressions part.\<close>

datatype selector_op = OpIn | OpNotIn | OpExists | OpDoesNotExist

record requirement =
  req_key :: string
  req_operator :: selector_op
  req_values :: "string list"

record label_selector =
  matchLabels :: labels
  matchExpressions :: "requirement list"

text \<open>\<open>corev1.Pod\<close> and \<open>appsv1.Deployment\<close>, with the fields the command reads.\<close>

record pod =
  pod_name :: string
  pod_namespace :: string
  pod_labels :: labels

record deployment =
  dep_name :: string
  dep_namespace :: string
  dep_labels :: labels
  dep_selector :: "label_selector option"

text \<open>\<open>configuration.ClusterConfig\<close>: the three fields \<open>restart\<close> uses.\<close>

record cluster_config =
  cfg_token :: string
  cfg_serverAPI :: string
  cfg_operatorNamespace :: string

text \<open>
  The option structs of kubectl's rollout sub-commands, with the arguments handed to
  \<open>Complete\<close> and the fields the source assigns afterwards.
\<close>

record restart_options =
  ro_args :: "string list"
  ro_namespace :: string
  ro_resources :: "string list"

record status_options =
  so_args :: "string list"
  so_labelSelector :: string
  so_namespace :: string

text \<open>
  \<open>runtimeclient.Client\<close> is an interface: the cluster behind it is a state of an
  arbitrary type \<open>'w\<close>, and each call may read it, change it and fail.
  \<^item> \<open>list_deployments ns ls\<close> is \<open>cl.List(_, &DeploymentList{}, InNamespace(ns), MatchingLabels(ls))\<close>;
  \<^item> \<open>list_pods sel\<close> is \<open>cl.List(_, &PodList{}, MatchingLabelsSelector{LabelSelectorAsSelector(sel)})\<close>
    (the source drops the conversion error and gives no namespace);
  \<^item> \<open>delete_pod p\<close> is \<open>cl.Delete(_, &p)\<close>.
\<close>

record 'w client =
  list_deployments :: "string \<Rightarrow> labels \<Rightarrow> 'w \<Rightarrow> (err + deployment list) \<times> 'w"
  list_pods :: "label_selector option \<Rightarrow> 'w \<Rightarrow> (err + pod list) \<times> 'w"
  delete_pod :: "pod \<Rightarrow> 'w \<Rightarrow> err option \<times> 'w"

text \<open>
  The collaborators outside the file: the configuration loader, the client constructor and
  the confirmation prompt of the command context, and the \<open>Complete\<close>, \<open>Validate\<close> and
  run methods of kubectl's rollout-restart and rollout-status options.
\<close>

record 'w env =
  loadClusterConfig :: "string \<Rightarrow> err + cluster_config"
  newClient :: "string \<Rightarrow> string \<Rightarrow> err + 'w client"
  askForConfirmation :: "string \<Rightarrow> bool"
  restartComplete :: "string list \<Rightarrow> err option"
  restartValidate :: "restart_options \<Rightarrow> err option"
  runRestart :: "restart_options \<Rightarrow> 'w \<Rightarrow> err option \<times> 'w"
  statusComplete :: "string list \<Rightarrow> err option"
  statusValidate :: "status_options \<Rightarrow> err option"
  statusRun :: "status_options \<Rightarrow> 'w \<Rightarrow> err option \<times> 'w"

text \<open>
  Every call that leaves the process is recorded, in order, with what it was given and how
  it ended: a listing with the list it returned or its error, the other calls with their
  error if any. The first three kinds only read; a pod deletion and a rollout restart
  change the cluster; a rollout status blocks until the rollout has converged or failed.
\<close>

datatype event =
    EvConfirm string bool
  | EvListDeployments string labels "err + deployment list"
  | EvListPods "label_selector option" "err + pod list"
  | EvDeletePod pod "err option"
  | EvRolloutRestart restart_options "err option"
  | EvRolloutStatus status_options "err option"

record 'w run_state =
  world :: 'w
  trace :: "event list"

definition logged :: "event \<Rightarrow> 'w \<Rightarrow> 'w run_state \<Rightarrow> 'w run_state" where
  "logged ev w st = \<lparr>world = w, trace = trace st @ [ev]\<rparr>"

definition err_of :: "err + 'a \<Rightarrow> err option" where
  "err_of r = (case r of Inl e \<Rightarrow> Some e | Inr _ \<Rightarrow> None)"

definition returned :: "err option \<Rightarrow> unit outcome" where
  "returned r = (case r of None \<Rightarrow> Val () | Some e \<Rightarrow> Fail e)"

section \<open>The functions of the source\<close>

definition checkRolloutStatus ::
  "'w env \<Rightarrow> string \<Rightarrow> 'w run_state \<Rightarrow> unit outcome \<times> 'w run_state" where
  "checkRolloutStatus env ns st =
    (case statusComplete env [''deployment''] of
       Some e \<Rightarrow> (Panicked e, st)
     | None \<Rightarrow>
        (let cmd = \<lparr>so_args = [''deployment''],
                    so_labelSelector = ''provider=codeready-toolchain'',
                    so_namespace = ns\<rparr>
         in case statusValidate env cmd of
              Some e \<Rightarrow> (Panicked e, st)
            | None \<Rightarrow>
               (let (r, w) = statusRun env cmd (world st)
                in (returned r, logged (EvRolloutStatus cmd r) w st))))"

definition restartNonOlmDeployments ::
  "'w env \<Rightarrow> string \<Rightarrow> deployment \<Rightarrow> 'w run_state \<Rightarrow> unit outcome \<times> 'w run_state" where
  "restartNonOlmDeployments env ns d st =
    (case restartComplete env [''deployments''] of
       Some e \<Rightarrow> (Panicked e, st)
     | None \<Rightarrow>
        (let opts = \<lparr>ro_args = [''deployments''],
                  ro_namespace = ns,
                  ro_resources = [''deployment/'' @ dep_name d]\<rparr>
         in case restartValidate env opts of
              Some e \<Rightarrow> (Panicked e, st)
            | None \<Rightarrow>
               (let (r, w) = runRestart env opts (world st)
                in (returned r, logged (EvRolloutRestart opts r) w st))))"

text \<open>The loop \<open>for _, pod := range pods.Items\<close> of \<open>deletePods\<close>.\<close>

fun deletePods_loop ::
  "'w client \<Rightarrow> pod list \<Rightarrow> 'w run_state \<Rightarrow> unit outcome \<times> 'w run_state" where
  "deletePods_loop cl [] st = (Val (), st)"
| "deletePods_loop cl (p # ps) st =
    (let (r, w) = delete_pod cl p (world st);
         st' = logged (EvDeletePod p r) w st
     in case r of
          Some e \<Rightarrow> (Fail e, st')
        | None \<Rightarrow> deletePods_loop cl ps st')"

definition deletePods ::
  "'w env \<Rightarrow> 'w client \<Rightarrow> deployment \<Rightarrow> string \<Rightarrow> 'w run_state
    \<Rightarrow> unit outcome \<times> 'w run_state" where
  "deletePods env cl d ns st =
    (let (r, w) = list_pods cl (dep_selector d) (world st);
         st1 = logged (EvListPods (dep_selector d) r) w st
     in case r of
          Inl e \<Rightarrow> (Fail e, st1)
        | Inr pods \<Rightarrow>
           (case deletePods_loop cl pods st1 of
              (Val _, st2) \<Rightarrow> checkRolloutStatus env ns st2
            | (Fail e, st2) \<Rightarrow> (Fail e, st2)
            | (Panicked e, st2) \<Rightarrow> (Panicked e, st2)))"

text \<open>
  \<open>getExistingDeployments\<close> returns two pointers and an error: \<open>(nil, nil, err)\<close> when a
  listing fails, the two freshly allocated lists and \<open>nil\<close> otherwise. A pointer is an
  \<open>option\<close>, \<open>None\<close> being \<open>nil\<close>.
\<close>

definition getExistingDeployments ::
  "'w client \<Rightarrow> string \<Rightarrow> 'w run_state
    \<Rightarrow> (deployment list option \<times> deployment list option \<times> err option) \<times> 'w run_state" where
  "getExistingDeployments cl ns st =
    (let olmLabels = [(''olm.owner.kind'', ''ClusterServiceVersion'')];
         (r1, w1) = list_deployments cl ns olmLabels (world st);
         st1 = logged (EvListDeployments ns olmLabels r1) w1 st
     in case r1 of
          Inl e \<Rightarrow> ((None, None, Some e), st1)
        | Inr olmDeployments \<Rightarrow>
           (let nonOlmLabels = [(''provider'', ''codeready-toolchain'')];
                (r2, w2) = list_deployments cl ns nonOlmLabels (world st1);
                st2 = logged (EvListDeployments ns nonOlmLabels r2) w2 st1
            in case r2 of
                 Inl e \<Rightarrow> ((None, None, Some e), st2)
               | Inr nonOlmDeployments \<Rightarrow>
                  ((Some olmDeployments, Some nonOlmDeployments, None), st2)))"

text \<open>The two loops of \<open>restartDeployment\<close>, over the items of each list.\<close>

fun restartDeployment_olmLoop ::
  "'w env \<Rightarrow> 'w client \<Rightarrow> deployment list \<Rightarrow> string \<Rightarrow> 'w run_state
    \<Rightarrow> unit outcome \<times> 'w run_state" where
  "restartDeployment_olmLoop env cl [] ns st = (Val (), st)"
| "restartDeployment_olmLoop env cl (d # ds) ns st =
    (case deletePods env cl d ns st of
       (Val _, st') \<Rightarrow> restartDeployment_olmLoop env cl ds ns st'
     | (Fail e, st') \<Rightarrow> (Fail e, st')
     | (Panicked e, st') \<Rightarrow> (Panicked e, st'))"

fun restartDeployment_nonOlmLoop ::
  "'w env \<Rightarrow> deployment list \<Rightarrow> string \<Rightarrow> 'w run_state
    \<Rightarrow> unit outcome \<times> 'w run_state" where
  "restartDeployment_nonOlmLoop env [] ns st = (Val (), st)"
| "restartDeployment_nonOlmLoop env (d # ds) ns st =
    (case restartNonOlmDeployments env ns d st of
       (Val _, st1) \<Rightarrow>
         (case checkRolloutStatus env ns st1 of
            (Val _, st2) \<Rightarrow> restartDeployment_nonOlmLoop env ds ns st2
          | (Fail e, st2) \<Rightarrow> (Fail e, st2)
          | (Panicked e, st2) \<Rightarrow> (Panicked e, st2))
     | (Fail e, st1) \<Rightarrow> (Fail e, st1)
     | (Panicked e, st1) \<Rightarrow> (Panicked e, st1))"

definition restartDeployment ::
  "'w env \<Rightarrow> 'w client \<Rightarrow> string \<Rightarrow> 'w run_state \<Rightarrow> unit outcome \<times> 'w run_state" where
  "restartDeployment env cl ns st =
    (let ((olmDeploymentList, nonOlmDeploymentlist, err), st1) = getExistingDeployments cl ns st
     in case err of
          Some e \<Rightarrow> (Fail e, st1)
        | None \<Rightarrow>
           (case olmDeploymentList of
              None \<Rightarrow> (Fail (Err (''OLM based deploymont not found in '' @ ns)), st1)
            | Some olmItems \<Rightarrow>
               (case restartDeployment_olmLoop env cl olmItems ns st1 of
                  (Val _, st2) \<Rightarrow>
                    (case nonOlmDeploymentlist of
                       None \<Rightarrow>
                         (Fail (Err (''non-OLM based deploymont not found in '' @ ns)), st2)
                     | Some nonOlmItems \<Rightarrow>
                         restartDeployment_nonOlmLoop env nonOlmItems ns st2)
                | (Fail e, st2) \<Rightarrow> (Fail e, st2)
                | (Panicked e, st2) \<Rightarrow> (Panicked e, st2))))"

text \<open>
  The prompt text of \<open>ioutils.WithMessagef("restart the '%s' operator in namespace '%s'", _, _)\<close>.
\<close>

definition confirmationMessage :: "string \<Rightarrow> string \<Rightarrow> string" where
  "confirmationMessage operatorType ns =
     ''restart the '' @ [CHR 0x27] @ operatorType @ [CHR 0x27]
       @ '' operator in namespace '' @ [CHR 0x27] @ ns @ [CHR 0x27]"

definition operatorNamesError :: err where
  "operatorNamesError =
     Err ''please mention one of the following operator names to restart: host | member-1 | member-2''"

text \<open>
  \<open>restart(ctx, clusterName, operatorType...)\<close>. The variadic argument is a list; cobra's
  \<open>RangeArgs(0, 1)\<close> lets the command line give zero or one element.
\<close>

definition restart ::
  "'w env \<Rightarrow> string \<Rightarrow> string list \<Rightarrow> 'w run_state \<Rightarrow> unit outcome \<times> 'w run_state" where
  "restart env clusterName operatorType st =
    (case loadClusterConfig env clusterName of
       Inl e \<Rightarrow> (Fail e, st)
     | Inr cfg \<Rightarrow>
        (case newClient env (cfg_token cfg) (cfg_serverAPI cfg) of
           Inl e \<Rightarrow> (Fail e, st)
         | Inr cl \<Rightarrow>
            (case operatorType of
               [] \<Rightarrow> (Fail operatorNamesError, st)
             | operatorType0 # _ \<Rightarrow>
                (let msg = confirmationMessage operatorType0 (cfg_operatorNamespace cfg);
                     answer = askForConfirmation env msg;
                     st1 = logged (EvConfirm msg answer) (world st) st
                 in if \<not> answer then (Val (), st1)
                    else restartDeployment env cl (cfg_operatorNamespace cfg) st1))))"

section \<open>Reading a trace\<close>

text \<open>The calls that change the cluster: a pod deletion and a rollout restart.\<close>

fun is_mutation :: "event \<Rightarrow> bool" where
  "is_mutation (EvDeletePod _ _) = True"
| "is_mutation (EvRolloutRestart _ _) = True"
| "is_mutation _ = False"

text \<open>The error a recorded call ended with, if any.\<close>

fun failure_of :: "event \<Rightarrow> err option" where
  "failure_of (EvConfirm _ _) = None"
| "failure_of (EvListDeployments _ _ r) = err_of r"
| "failure_of (EvListPods _ r) = err_of r"
| "failure_of (EvDeletePod _ r) = r"
| "failure_of (EvRolloutRestart _ r) = r"
| "failure_of (EvRolloutStatus _ r) = r"

text \<open>The label selectors of the rollout-status waits of a trace, in order.\<close>

fun status_selectors :: "event list \<Rightarrow> string list" where
  "status_selectors [] = []"
| "status_selectors (EvRolloutStatus c _ # t) = so_labelSelector c # status_selectors t"
| "status_selectors (_ # t) = status_selectors t"

text \<open>
  The rollout-status request that \<open>checkRolloutStatus\<close> builds for a namespace, and the
  rollout-restart request that \<open>restartNonOlmDeployments\<close> builds for a deployment.
\<close>

definition statusCmd :: "string \<Rightarrow> status_options" where
  "statusCmd ns = \<lparr>so_args = [''deployment''],
                   so_labelSelector = ''provider=codeready-toolchain'',
                   so_namespace = ns\<rparr>"

definition restartOpts :: "string \<Rightarrow> deployment \<Rightarrow> restart_options" where
  "restartOpts ns d = \<lparr>ro_args = [''deployments''], ro_namespace = ns,
                       ro_resources = [''deployment/'' @ dep_name d]\<rparr>"

text \<open>
  The order of the calls of one orchestration run, as a recogniser that reads the trace
  and nothing else. What is still to do is kept in the phase, taken from what the listings
  returned:
  \<^item> the run lists the lifecycle-managed class, then the directly-owned class, in the
    namespace and by the two labels;
  \<^item> \<open>RecycleIdle olm nonOlm\<close>: no recycle is in progress, the deployments \<open>olm\<close> are
    still to be recycled and \<open>nonOlm\<close> still to be restarted. The next call has to list
    the pods by the selector of the first deployment of \<open>olm\<close>; only when \<open>olm\<close> is empty
    may it be the restart of the first deployment of \<open>nonOlm\<close>;
  \<^item> \<open>Recycling ps olm nonOlm\<close>: the pods \<open>ps\<close> of the current deployment are still to
    be deleted. The next call has to delete the first pod of \<open>ps\<close>; only when \<open>ps\<close> is
    empty may it be the rollout-status wait, which closes the recycle;
  \<^item> \<open>RestartTriggered nonOlm\<close>: a restart was triggered and the next call has to be
    its rollout-status wait.
  A call that failed ends the run: nothing is accepted after it.
\<close>

datatype phase =
    ListingOlm
  | ListingNonOlm "deployment list"
  | RecycleIdle "deployment list" "deployment list"
  | Recycling "pod list" "deployment list" "deployment list"
  | RestartTriggered "deployment list"
  | Aborted err

definition after_call :: "err option \<Rightarrow> phase \<Rightarrow> phase option" where
  "after_call r ph = (case r of None \<Rightarrow> Some ph | Some e \<Rightarrow> Some (Aborted e))"

fun phase_step :: "string \<Rightarrow> phase \<Rightarrow> event \<Rightarrow> phase option" where
  "phase_step ns ListingOlm (EvListDeployments ns' ls r) =
     (if ns' = ns \<and> ls = [(''olm.owner.kind'', ''ClusterServiceVersion'')]
      then (case r of Inl e \<Rightarrow> Some (Aborted e) | Inr olm \<Rightarrow> Some (ListingNonOlm olm))
      else None)"
| "phase_step ns (ListingNonOlm olm) (EvListDeployments ns' ls r) =
     (if ns' = ns \<and> ls = [(''provider'', ''codeready-toolchain'')]
      then (case r of Inl e \<Rightarrow> Some (Aborted e) | Inr nonOlm \<Rightarrow> Some (RecycleIdle olm nonOlm))
      else None)"
| "phase_step ns (RecycleIdle (d # olm) nonOlm) (EvListPods sel r) =
     (if sel = dep_selector d
      then (case r of Inl e \<Rightarrow> Some (Aborted e) | Inr ps \<Rightarrow> Some (Recycling ps olm nonOlm))
      else None)"
| "phase_step ns (Recycling (p # ps) olm nonOlm) (EvDeletePod q r) =
     (if q = p then after_call r (Recycling ps olm nonOlm) else None)"
| "phase_step ns (Recycling [] olm nonOlm) (EvRolloutStatus cmd r) =
     (if cmd = statusCmd ns then after_call r (RecycleIdle olm nonOlm) else None)"
| "phase_step ns (RecycleIdle [] (d # nonOlm)) (EvRolloutRestart opts r) =
     (if opts = restartOpts ns d then after_call r (RestartTriggered nonOlm) else None)"
| "phase_step ns (RestartTriggered nonOlm) (EvRolloutStatus cmd r) =
     (if cmd = statusCmd ns then after_call r (RecycleIdle [] nonOlm) else None)"
| "phase_step ns _ _ = None"

fun phases :: "string \<Rightarrow> phase \<Rightarrow> event list \<Rightarrow> phase option" where
  "phases ns ph [] = Some ph"
| "phases ns ph (ev # t) =
     (case phase_step ns ph ev of None \<Rightarrow> None | Some ph' \<Rightarrow> phases ns ph' t)"

text \<open>
  Where a run may stop. A run that returns \<open>nil\<close> has recycled and restarted every
  deployment that was listed. A run that returns an error stopped at the call that gave
  this error. A run that panics stopped where a rollout request is built: before the wait
  that closes a recycle, before a restart, or before the wait that follows a restart.
\<close>

fun finished :: "unit outcome \<Rightarrow> phase \<Rightarrow> bool" where
  "finished (Val _) (RecycleIdle [] []) = True"
| "finished (Fail e) (Aborted e') = (e' = e)"
| "finished (Panicked _) (Recycling [] _ _) = True"
| "finished (Panicked _) (RecycleIdle [] (_ # _)) = True"
| "finished (Panicked _) (RestartTriggered _) = True"
| "finished _ _ = False"

text \<open>Every rollout-status wait of a trace was given the provider label as its selector.\<close>

definition fixed_selector :: "event list \<Rightarrow> bool" where
  "fixed_selector t = (\<forall>s \<in> set (status_selectors t). s = ''provider=codeready-toolchain'')"

text \<open>
  The trace is only written, never read: a function run from another trace makes the same
  calls, returns the same and leaves the same cluster.
\<close>

definition trace_blind :: "('w run_state \<Rightarrow> 'a \<times> 'w run_state) \<Rightarrow> bool" where
  "trace_blind f =
    (\<forall>st. \<exists>u. trace (snd (f st)) = trace st @ u
       \<and> (\<forall>t. f (st\<lparr>trace := t\<rparr>) = (fst (f st), (snd (f st))\<lparr>trace := t @ u\<rparr>)))"

text \<open>Running \<open>g\<close> after \<open>f\<close> returned \<open>nil\<close>, as \<open>if err := f(); err != nil { return err }\<close> does.\<close>

definition and_then ::
  "('w run_state \<Rightarrow> unit outcome \<times> 'w run_state) \<Rightarrow> ('w run_state \<Rightarrow> unit outcome \<times> 'w run_state)
    \<Rightarrow> 'w run_state \<Rightarrow> unit outcome \<times> 'w run_state" where
  "and_then f g st =
    (case f st of
       (Val _, st') \<Rightarrow> g st'
     | (Fail e, st') \<Rightarrow> (Fail e, st')
     | (Panicked e, st') \<Rightarrow> (Panicked e, st'))"

section \<open>An in-memory cluster\<close>

text \<open>
  Modelled from the spec: the cluster client and the rollout sub-commands are libraries
  outside the repository. This cluster holds deployments and pods; a listing returns the
  objects that carry every requested label (and, for deployments, live in the requested
  namespace), as the spec's discovery "lists deployments matching the label within the
  given namespace"; deleting a pod removes it, unless the pod is protected, in which case
  the call fails and changes nothing.
\<close>

record cluster =
  deployments :: "deployment list"
  pods :: "pod list"
  protected :: "string list"

definition has_labels :: "labels \<Rightarrow> labels \<Rightarrow> bool" where
  "has_labels wanted actual = list_all (\<lambda>(k, v). map_of actual k = Some v) wanted"

definition requirement_matches :: "requirement \<Rightarrow> labels \<Rightarrow> bool" where
  "requirement_matches r actual =
    (case req_operator r of
       OpIn \<Rightarrow> (case map_of actual (req_key r) of None \<Rightarrow> False | Some v \<Rightarrow> v \<in> set (req_values r))
     | OpNotIn \<Rightarrow> (case map_of actual (req_key r) of None \<Rightarrow> True | Some v \<Rightarrow> v \<notin> set (req_values r))
     | OpExists \<Rightarrow> map_of actual (req_key r) \<noteq> None
     | OpDoesNotExist \<Rightarrow> map_of actual (req_key r) = None)"

definition selector_matches :: "label_selector option \<Rightarrow> labels \<Rightarrow> bool" where
  "selector_matches sel actual =
    (case sel of
       None \<Rightarrow> False
     | Some s \<Rightarrow> has_labels (matchLabels s) actual
                 \<and> list_all (\<lambda>r. requirement_matches r actual) (matchExpressions s))"

definition memClient :: "cluster client" where
  "memClient =
    \<lparr>list_deployments = (\<lambda>ns ls w.
        (Inr (filter (\<lambda>d. dep_namespace d = ns \<and> has_labels ls (dep_labels d)) (deployments w)), w)),
     list_pods = (\<lambda>sel w.
        (Inr (filter (\<lambda>p. selector_matches sel (pod_labels p)) (pods w)), w)),
     delete_pod = (\<lambda>p w.
        if pod_name p \<in> set (protected w)
        then (Some (Err (''pods '' @ pod_name p @ '' is forbidden'')), w)
        else (None, w\<lparr>pods := filter (\<lambda>q. q \<noteq> p) (pods w)\<rparr>))\<rparr>"

text \<open>
  An environment around it: one known cluster name, a prompt that answers \<open>answer\<close>
  whatever it is asked, and rollout sub-commands that always succeed.
\<close>

definition hostConfig :: cluster_config where
  "hostConfig = \<lparr>cfg_token = ''secret'', cfg_serverAPI = ''https://api.host.example:6443'',
                 cfg_operatorNamespace = ''host-operator-ns''\<rparr>"

definition memEnv :: "bool \<Rightarrow> cluster env" where
  "memEnv answer =
    \<lparr>loadClusterConfig = (\<lambda>name.
        if name = ''host'' then Inr hostConfig
        else Inl (Err (''the provided cluster-name '' @ name @ '' is not present in your ksctl.yaml file''))),
     newClient = (\<lambda>token api. Inr memClient),
     askForConfirmation = (\<lambda>msg. answer),
     restartComplete = (\<lambda>args. None),
     restartValidate = (\<lambda>opts. None),
     runRestart = (\<lambda>opts w. (None, w)),
     statusComplete = (\<lambda>args. None),
     statusValidate = (\<lambda>cmd. None),
     statusRun = (\<lambda>cmd w. (None, w))\<rparr>"

text \<open>
  The scenario of the spec: namespace \<open>host-operator-ns\<close> with the lifecycle-managed
  deployment \<open>host-operator\<close> (three pods) and the directly-owned deployment
  \<open>registration-service\<close> (one pod).
\<close>

definition nameSelector :: "string \<Rightarrow> label_selector option" where
  "nameSelector n = Some \<lparr>matchLabels = [(''name'', n)], matchExpressions = []\<rparr>"

definition hostOperator :: deployment where
  "hostOperator =
    \<lparr>dep_name = ''host-operator'', dep_namespace = ''host-operator-ns'',
     dep_labels = [(''olm.owner.kind'', ''ClusterServiceVersion'')],
     dep_selector = nameSelector ''host-operator''\<rparr>"

definition registrationService :: deployment where
  "registrationService =
    \<lparr>dep_name = ''registration-service'', dep_namespace = ''host-operator-ns'',
     dep_labels = [(''provider'', ''codeready-toolchain'')],
     dep_selector = nameSelector ''registration-service''\<rparr>"

definition podOf :: "string \<Rightarrow> string \<Rightarrow> pod" where
  "podOf owner suffix =
    \<lparr>pod_name = owner @ ''-'' @ suffix, pod_namespace = ''host-operator-ns'',
     pod_labels = [(''name'', owner)]\<rparr>"

definition scenarioCluster :: cluster where
  "scenarioCluster =
    \<lparr>deployments = [hostOperator, registrationService],
     pods = [podOf ''host-operator'' ''a'', podOf ''host-operator'' ''b'',
             podOf ''host-operator'' ''c'', podOf ''registration-service'' ''a''],
     protected = []\<rparr>"

text \<open>Variations of the scenario.\<close>

definition protectedCluster :: cluster where
  \<comment> \<open>the second pod of \<open>host-operator\<close> cannot be deleted\<close>
  "protectedCluster = scenarioCluster\<lparr>protected := [''host-operator-b'']\<rparr>"

definition onlyLifecycleManaged :: cluster where
  \<comment> \<open>no deployment carries the provider label\<close>
  "onlyLifecycleManaged = scenarioCluster\<lparr>deployments := [hostOperator]\<rparr>"

definition onlyDirectlyOwned :: cluster where
  \<comment> \<open>no deployment carries the lifecycle-owner label\<close>
  "onlyDirectlyOwned = scenarioCluster\<lparr>deployments := [registrationService]\<rparr>"

definition dualLabelled :: deployment where
  \<comment> \<open>a deployment installed by the lifecycle manager that also carries the provider label\<close>
  "dualLabelled =
    \<lparr>dep_name = ''host-operator'', dep_namespace = ''host-operator-ns'',
     dep_labels = [(''olm.owner.kind'', ''ClusterServiceVersion''),
                   (''provider'', ''codeready-toolchain'')],
     dep_selector = nameSelector ''host-operator''\<rparr>"

definition dualCluster :: cluster where
  "dualCluster = \<lparr>deployments = [dualLabelled], pods = [], protected = []\<rparr>"

text \<open>
  A namespace with two deployments of each class: the lifecycle-managed \<open>host-operator\<close>
  (two pods) and \<open>member-operator\<close> (one pod), and the directly-owned
  \<open>registration-service\<close> and \<open>member-operator-webhook\<close> (one pod each).
\<close>

definition memberOperator :: deployment where
  "memberOperator =
    \<lparr>dep_name = ''member-operator'', dep_namespace = ''host-operator-ns'',
     dep_labels = [(''olm.owner.kind'', ''ClusterServiceVersion'')],
     dep_selector = nameSelector ''member-operator''\<rparr>"

definition memberWebhook :: deployment where
  "memberWebhook =
    \<lparr>dep_name = ''member-operator-webhook'', dep_namespace = ''host-operator-ns'',
     dep_labels = [(''provider'', ''codeready-toolchain'')],
     dep_selector = nameSelector ''member-operator-webhook''\<rparr>"

definition twoOfEachCluster :: cluster where
  "twoOfEachCluster =
    \<lparr>deployments = [hostOperator, registrationService, memberOperator, memberWebhook],
     pods = [podOf ''host-operator'' ''a'', podOf ''member-operator'' ''a'',
             podOf ''host-operator'' ''b'', podOf ''registration-service'' ''a'',
             podOf ''member-operator-webhook'' ''a''],
     protected = []\<rparr>"

definition brokenComplete :: "cluster env" where
  \<comment> \<open>both \<open>Complete\<close> calls fail\<close>
  "brokenComplete =
    (memEnv True)\<lparr>restartComplete := (\<lambda>args. Some (Err ''invalid configuration'')),
                   statusComplete := (\<lambda>args. Some (Err ''invalid configuration''))\<rparr>"

definition brokenValidate :: "cluster env" where
  \<comment> \<open>both \<open>Validate\<close> calls fail\<close>
  "brokenValidate =
    (memEnv True)\<lparr>restartValidate := (\<lambda>opts. Some (Err ''required resource not specified'')),
                   statusValidate := (\<lambda>cmd. Some (Err ''required resource not specified''))\<rparr>"

definition start :: "'w \<Rightarrow> 'w run_state" where
  "start w = \<lparr>world = w, trace = []\<rparr>"

section \<open>What a run adds to the trace\<close>

lemma phases_append:
  "phases ns ph (t1 @ t2) =
     (case phases ns ph t1 of None \<Rightarrow> None | Some ph' \<Rightarrow> phases ns ph' t2)"
  by (induction t1 arbitrary: ph) (auto split: option.splits)

lemma phases_appendI:
  "phases ns ph t1 = Some p \<Longrightarrow> phases ns p t2 = Some q \<Longrightarrow> phases ns ph (t1 @ t2) = Some q"
  by (simp add: phases_append)

lemma phases_Aborted: "phases ns (Aborted e) t = Some ph \<Longrightarrow> t = [] \<and> ph = Aborted e"
  by (cases t) auto

lemma phase_step_failure:
  "phase_step ns ph ev = Some ph' \<Longrightarrow> failure_of ev = Some e \<Longrightarrow> ph' = Aborted e"
  by (induction ns ph ev rule: phase_step.induct)
     (auto simp: after_call_def err_of_def split: if_splits sum.splits)

lemma phases_failure_last:
  assumes "phases ns ph (xs @ ev # ys) = Some ph'" and "failure_of ev = Some e"
  shows "ys = [] \<and> ph' = Aborted e"
proof -
  from assms(1) obtain p1 where p1: "phases ns ph xs = Some p1"
    and rest: "phases ns p1 (ev # ys) = Some ph'"
    by (auto simp: phases_append split: option.splits)
  from rest obtain p2 where p2: "phase_step ns p1 ev = Some p2" and tl: "phases ns p2 ys = Some ph'"
    by (auto split: option.splits)
  from p2 assms(2) have "p2 = Aborted e" by (rule phase_step_failure)
  with tl show ?thesis using phases_Aborted by blast
qed

lemma checkRolloutStatus_trace:
  assumes "checkRolloutStatus env ns st = (r, st')"
  shows "\<exists>t. trace st' = trace st @ t \<and>
           (case r of Val _ \<Rightarrow> t = [EvRolloutStatus (statusCmd ns) None]
            | Fail e \<Rightarrow> t = [EvRolloutStatus (statusCmd ns) (Some e)]
            | Panicked e \<Rightarrow> t = [])"
  using assms
  by (auto simp: checkRolloutStatus_def statusCmd_def logged_def returned_def Let_def
      split: option.splits prod.splits)

lemma restartNonOlmDeployments_trace:
  assumes "restartNonOlmDeployments env ns d st = (r, st')"
  shows "\<exists>t. trace st' = trace st @ t \<and>
           (case r of Val _ \<Rightarrow> t = [EvRolloutRestart (restartOpts ns d) None]
            | Fail e \<Rightarrow> t = [EvRolloutRestart (restartOpts ns d) (Some e)]
            | Panicked e \<Rightarrow> t = [])"
  using assms
  by (auto simp: restartNonOlmDeployments_def restartOpts_def logged_def returned_def Let_def
      split: option.splits prod.splits)

lemma deletePods_loop_phases:
  assumes "deletePods_loop cl ps st = (r, st')"
  shows "\<exists>t. trace st' = trace st @ t \<and>
           (case r of Val _ \<Rightarrow> phases ns (Recycling ps olm nonOlm) t = Some (Recycling [] olm nonOlm)
            | Fail e \<Rightarrow> phases ns (Recycling ps olm nonOlm) t = Some (Aborted e)
            | Panicked e \<Rightarrow> False)"
  using assms
proof (induction ps arbitrary: st)
  case Nil
  then show ?case by auto
next
  case (Cons p ps)
  obtain x w where del: "delete_pod cl p (world st) = (x, w)" by (cases "delete_pod cl p (world st)")
  show ?case
  proof (cases x)
    case None
    with Cons.prems del
    have run: "deletePods_loop cl ps (logged (EvDeletePod p None) w st) = (r, st')"
      by simp
    from Cons.IH [OF run] obtain t where
      t: "trace st' = trace (logged (EvDeletePod p None) w st) @ t"
      and ph: "(case r of Val _ \<Rightarrow> phases ns (Recycling ps olm nonOlm) t = Some (Recycling [] olm nonOlm)
            | Fail e \<Rightarrow> phases ns (Recycling ps olm nonOlm) t = Some (Aborted e)
            | Panicked e \<Rightarrow> False)"
      by blast
    have "trace st' = trace st @ (EvDeletePod p None # t)"
      using t by (simp add: logged_def)
    moreover have "(case r of
              Val _ \<Rightarrow> phases ns (Recycling (p # ps) olm nonOlm) (EvDeletePod p None # t)
                         = Some (Recycling [] olm nonOlm)
            | Fail e \<Rightarrow> phases ns (Recycling (p # ps) olm nonOlm) (EvDeletePod p None # t)
                         = Some (Aborted e)
            | Panicked e \<Rightarrow> False)"
      using ph by (simp add: after_call_def split: outcome.splits)
    ultimately show ?thesis by blast
  next
    case (Some e)
    with Cons.prems del have "r = Fail e" and "st' = logged (EvDeletePod p (Some e)) w st"
      by auto
    then have "trace st' = trace st @ [EvDeletePod p (Some e)]"
      and "phases ns (Recycling (p # ps) olm nonOlm) [EvDeletePod p (Some e)] = Some (Aborted e)"
      by (simp_all add: logged_def after_call_def)
    with \<open>r = Fail e\<close> show ?thesis by auto
  qed
qed

lemma checkRolloutStatus_phases:
  assumes "checkRolloutStatus env ns st = (r, st')"
    and ok: "phase_step ns ph (EvRolloutStatus (statusCmd ns) None) = Some ph_ok"
    and bad: "\<And>e. phase_step ns ph (EvRolloutStatus (statusCmd ns) (Some e)) = Some (Aborted e)"
  shows "\<exists>t ph'. trace st' = trace st @ t \<and> phases ns ph t = Some ph' \<and>
           (case r of Val _ \<Rightarrow> ph' = ph_ok | Fail e \<Rightarrow> ph' = Aborted e | Panicked e \<Rightarrow> ph' = ph)"
proof -
  from checkRolloutStatus_trace [OF assms(1)] obtain t where
    t: "trace st' = trace st @ t"
    and sh: "(case r of Val _ \<Rightarrow> t = [EvRolloutStatus (statusCmd ns) None]
            | Fail e \<Rightarrow> t = [EvRolloutStatus (statusCmd ns) (Some e)]
            | Panicked e \<Rightarrow> t = [])"
    by blast
  show ?thesis
    using t sh ok bad by (cases r) auto
qed

lemma deletePods_phases:
  assumes "deletePods env cl d ns st = (r, st')"
  shows "\<exists>t ph'. trace st' = trace st @ t \<and> phases ns (RecycleIdle (d # olm) nonOlm) t = Some ph' \<and>
           (case r of Val _ \<Rightarrow> ph' = RecycleIdle olm nonOlm | Fail e \<Rightarrow> ph' = Aborted e
            | Panicked e \<Rightarrow> ph' = Recycling [] olm nonOlm)"
proof -
  obtain x w where ls: "list_pods cl (dep_selector d) (world st) = (x, w)"
    by (cases "list_pods cl (dep_selector d) (world st)")
  show ?thesis
  proof (cases x)
    case (Inl e)
    with assms ls have "r = Fail e"
      and "trace st' = trace st @ [EvListPods (dep_selector d) (Inl e)]"
      by (auto simp: deletePods_def logged_def)
    moreover have "phases ns (RecycleIdle (d # olm) nonOlm) [EvListPods (dep_selector d) (Inl e)]
        = Some (Aborted e)"
      by simp
    ultimately show ?thesis by auto
  next
    case (Inr ps)
    define st1 where "st1 = logged (EvListPods (dep_selector d) (Inr ps)) w st"
    obtain r2 st2 where loop: "deletePods_loop cl ps st1 = (r2, st2)"
      by (cases "deletePods_loop cl ps st1")
    from deletePods_loop_phases [OF loop, of ns olm nonOlm] obtain t2 where
      t2: "trace st2 = trace st1 @ t2"
      and ph2: "(case r2 of Val _ \<Rightarrow> phases ns (Recycling ps olm nonOlm) t2 = Some (Recycling [] olm nonOlm)
            | Fail e \<Rightarrow> phases ns (Recycling ps olm nonOlm) t2 = Some (Aborted e)
            | Panicked e \<Rightarrow> False)"
      by blast
    have tr1: "trace st1 = trace st @ [EvListPods (dep_selector d) (Inr ps)]"
      by (simp add: st1_def logged_def)
    have first: "phases ns (RecycleIdle (d # olm) nonOlm) ([EvListPods (dep_selector d) (Inr ps)] @ t)
        = phases ns (Recycling ps olm nonOlm) t" for t
      by simp
    from assms ls Inr loop
    have body: "(case r2 of Val _ \<Rightarrow> checkRolloutStatus env ns st2 = (r, st')
                 | Fail e \<Rightarrow> r = Fail e \<and> st' = st2
                 | Panicked e \<Rightarrow> r = Panicked e \<and> st' = st2)"
      by (auto simp: deletePods_def st1_def split: outcome.splits)
    show ?thesis
    proof (cases r2)
      case (Val u)
      with body have chk: "checkRolloutStatus env ns st2 = (r, st')" by simp
      have ok: "phase_step ns (Recycling [] olm nonOlm) (EvRolloutStatus (statusCmd ns) None)
          = Some (RecycleIdle olm nonOlm)"
        and bad: "\<And>e. phase_step ns (Recycling [] olm nonOlm) (EvRolloutStatus (statusCmd ns) (Some e))
          = Some (Aborted e)"
        by (simp_all add: after_call_def)
      from checkRolloutStatus_phases [OF chk ok bad] obtain t3 ph3 where
        t3: "trace st' = trace st2 @ t3" and p3: "phases ns (Recycling [] olm nonOlm) t3 = Some ph3"
        and o3: "(case r of Val _ \<Rightarrow> ph3 = RecycleIdle olm nonOlm | Fail e \<Rightarrow> ph3 = Aborted e
                  | Panicked e \<Rightarrow> ph3 = Recycling [] olm nonOlm)"
        by blast
      have "trace st' = trace st @ ([EvListPods (dep_selector d) (Inr ps)] @ t2 @ t3)"
        using t3 t2 tr1 by simp
      moreover have "phases ns (RecycleIdle (d # olm) nonOlm)
          ([EvListPods (dep_selector d) (Inr ps)] @ t2 @ t3) = Some ph3"
        using ph2 Val p3 by (simp only: first) (simp add: phases_append)
      ultimately show ?thesis using o3 by blast
    next
      case (Fail e)
      with body have "r = Fail e" "st' = st2" by simp_all
      moreover have "trace st2 = trace st @ ([EvListPods (dep_selector d) (Inr ps)] @ t2)"
        using t2 tr1 by simp
      moreover have "phases ns (RecycleIdle (d # olm) nonOlm)
          ([EvListPods (dep_selector d) (Inr ps)] @ t2) = Some (Aborted e)"
        using ph2 Fail by (simp only: first) simp
      ultimately show ?thesis by auto
    next
      case (Panicked e)
      with ph2 show ?thesis by simp
    qed
  qed
qed

lemma restartDeployment_olmLoop_phases:
  assumes "restartDeployment_olmLoop env cl ds ns st = (r, st')"
  shows "\<exists>t ph'. trace st' = trace st @ t \<and> phases ns (RecycleIdle ds nonOlm) t = Some ph' \<and>
           (case r of Val _ \<Rightarrow> ph' = RecycleIdle [] nonOlm | Fail e \<Rightarrow> ph' = Aborted e
            | Panicked e \<Rightarrow> (\<exists>olm. ph' = Recycling [] olm nonOlm))"
  using assms
proof (induction ds arbitrary: st)
  case Nil
  then show ?case by auto
next
  case (Cons d ds)
  obtain r1 st1 where one: "deletePods env cl d ns st = (r1, st1)"
    by (cases "deletePods env cl d ns st")
  from deletePods_phases [OF one, of ds nonOlm] obtain t1 ph1 where
    t1: "trace st1 = trace st @ t1" and p1: "phases ns (RecycleIdle (d # ds) nonOlm) t1 = Some ph1"
    and o1: "(case r1 of Val _ \<Rightarrow> ph1 = RecycleIdle ds nonOlm | Fail e \<Rightarrow> ph1 = Aborted e
              | Panicked e \<Rightarrow> ph1 = Recycling [] ds nonOlm)"
    by blast
  show ?case
  proof (cases r1)
    case (Val u)
    with Cons.prems one have "restartDeployment_olmLoop env cl ds ns st1 = (r, st')" by simp
    from Cons.IH [OF this] obtain t2 ph2 where
      t2: "trace st' = trace st1 @ t2" and p2: "phases ns (RecycleIdle ds nonOlm) t2 = Some ph2"
      and o2: "(case r of Val _ \<Rightarrow> ph2 = RecycleIdle [] nonOlm | Fail e \<Rightarrow> ph2 = Aborted e
                | Panicked e \<Rightarrow> (\<exists>olm. ph2 = Recycling [] olm nonOlm))"
      by blast
    have "trace st' = trace st @ (t1 @ t2)" using t1 t2 by simp
    moreover have "phases ns (RecycleIdle (d # ds) nonOlm) (t1 @ t2) = Some ph2"
      using p1 o1 Val p2 by (auto intro: phases_appendI)
    ultimately show ?thesis using o2 by blast
  next
    case (Fail e)
    with Cons.prems one have "r = Fail e" "st' = st1" by simp_all
    with t1 p1 o1 Fail show ?thesis by auto
  next
    case (Panicked e)
    with Cons.prems one have "r = Panicked e" "st' = st1" by simp_all
    with t1 p1 o1 Panicked show ?thesis by auto
  qed
qed

lemma restartNonOlmDeployments_phases:
  assumes "restartNonOlmDeployments env ns d st = (r, st')"
  shows "\<exists>t ph'. trace st' = trace st @ t \<and> phases ns (RecycleIdle [] (d # nonOlm)) t = Some ph' \<and>
           (case r of Val _ \<Rightarrow> ph' = RestartTriggered nonOlm | Fail e \<Rightarrow> ph' = Aborted e
            | Panicked e \<Rightarrow> ph' = RecycleIdle [] (d # nonOlm))"
proof -
  from restartNonOlmDeployments_trace [OF assms(1)] obtain t where
    t: "trace st' = trace st @ t"
    and sh: "(case r of Val _ \<Rightarrow> t = [EvRolloutRestart (restartOpts ns d) None]
            | Fail e \<Rightarrow> t = [EvRolloutRestart (restartOpts ns d) (Some e)]
            | Panicked e \<Rightarrow> t = [])"
    by blast
  show ?thesis
    using t sh by (cases r) (auto simp: after_call_def)
qed

lemma restartDeployment_nonOlmLoop_phases:
  assumes "restartDeployment_nonOlmLoop env ds ns st = (r, st')"
  shows "\<exists>t ph'. trace st' = trace st @ t \<and> phases ns (RecycleIdle [] ds) t = Some ph'
           \<and> finished r ph'"
  using assms
proof (induction ds arbitrary: st)
  case Nil
  then show ?case by auto
next
  case (Cons d ds)
  obtain r1 st1 where one: "restartNonOlmDeployments env ns d st = (r1, st1)"
    by (cases "restartNonOlmDeployments env ns d st")
  from restartNonOlmDeployments_phases [OF one, of ds] obtain t1 ph1 where
    t1: "trace st1 = trace st @ t1" and p1: "phases ns (RecycleIdle [] (d # ds)) t1 = Some ph1"
    and o1: "(case r1 of Val _ \<Rightarrow> ph1 = RestartTriggered ds | Fail e \<Rightarrow> ph1 = Aborted e
              | Panicked e \<Rightarrow> ph1 = RecycleIdle [] (d # ds))"
    by blast
  show ?case
  proof (cases r1)
    case (Val u)
    obtain r2 st2 where two: "checkRolloutStatus env ns st1 = (r2, st2)"
      by (cases "checkRolloutStatus env ns st1")
    have ok: "phase_step ns (RestartTriggered ds) (EvRolloutStatus (statusCmd ns) None)
        = Some (RecycleIdle [] ds)"
      and bad: "\<And>e. phase_step ns (RestartTriggered ds) (EvRolloutStatus (statusCmd ns) (Some e))
        = Some (Aborted e)"
      by (simp_all add: after_call_def)
    from checkRolloutStatus_phases [OF two ok bad] obtain t2 ph2 where
      t2: "trace st2 = trace st1 @ t2" and p2: "phases ns (RestartTriggered ds) t2 = Some ph2"
      and o2: "(case r2 of Val _ \<Rightarrow> ph2 = RecycleIdle [] ds | Fail e \<Rightarrow> ph2 = Aborted e
                | Panicked e \<Rightarrow> ph2 = RestartTriggered ds)"
      by blast
    have tr12: "trace st2 = trace st @ (t1 @ t2)" using t1 t2 by simp
    have p12: "phases ns (RecycleIdle [] (d # ds)) (t1 @ t2) = Some ph2"
      using p1 o1 Val p2 by (auto intro: phases_appendI)
    show ?thesis
    proof (cases r2)
      case (Val v)
      with one \<open>r1 = Val u\<close> two Cons.prems(1)
      have "restartDeployment_nonOlmLoop env ds ns st2 = (r, st')" by simp
      from Cons.IH [OF this] obtain t3 ph3 where
        t3: "trace st' = trace st2 @ t3" and p3: "phases ns (RecycleIdle [] ds) t3 = Some ph3"
        and o3: "finished r ph3"
        by blast
      have "trace st' = trace st @ ((t1 @ t2) @ t3)" using tr12 t3 by simp
      moreover have "phases ns (RecycleIdle [] (d # ds)) ((t1 @ t2) @ t3) = Some ph3"
        using phases_appendI [OF p12, of t3 ph3] o2 Val p3 by simp
      ultimately show ?thesis using o3 by blast
    next
      case (Fail e)
      with one \<open>r1 = Val u\<close> two Cons.prems(1) have "r = Fail e" "st' = st2" by simp_all
      with tr12 p12 o2 Fail show ?thesis by auto
    next
      case (Panicked e)
      with one \<open>r1 = Val u\<close> two Cons.prems(1) have "r = Panicked e" "st' = st2" by simp_all
      with tr12 p12 o2 Panicked show ?thesis by auto
    qed
  next
    case (Fail e)
    with Cons.prems(1) one have "r = Fail e" "st' = st1" by simp_all
    with t1 p1 o1 Fail show ?thesis by auto
  next
    case (Panicked e)
    with Cons.prems(1) one have "r = Panicked e" "st' = st1" by simp_all
    with t1 p1 o1 Panicked show ?thesis by auto
  qed
qed

lemma getExistingDeployments_phases:
  assumes "getExistingDeployments cl ns st = ((a, b, x), st')"
  shows "\<exists>t. trace st' = trace st @ t \<and>
           (case x of
              None \<Rightarrow> (\<exists>olm nonOlm. a = Some olm \<and> b = Some nonOlm
                         \<and> phases ns ListingOlm t = Some (RecycleIdle olm nonOlm))
            | Some e \<Rightarrow> a = None \<and> b = None \<and> phases ns ListingOlm t = Some (Aborted e))"
  using assms
  by (auto simp: getExistingDeployments_def logged_def Let_def
      split: prod.splits sum.splits)

lemma restartDeployment_phases:
  assumes "restartDeployment env cl ns st = (r, st')"
  shows "\<exists>t ph. trace st' = trace st @ t \<and> phases ns ListingOlm t = Some ph \<and> finished r ph"
proof -
  obtain a b x st1 where disc: "getExistingDeployments cl ns st = ((a, b, x), st1)"
    by (metis prod.exhaust)
  from getExistingDeployments_phases [OF disc] obtain t1 where
    t1: "trace st1 = trace st @ t1"
    and o1: "(case x of
              None \<Rightarrow> (\<exists>olm nonOlm. a = Some olm \<and> b = Some nonOlm
                         \<and> phases ns ListingOlm t1 = Some (RecycleIdle olm nonOlm))
            | Some e \<Rightarrow> a = None \<and> b = None \<and> phases ns ListingOlm t1 = Some (Aborted e))"
    by blast
  show ?thesis
  proof (cases x)
    case (Some e)
    with assms disc have "r = Fail e" "st' = st1" by (simp_all add: restartDeployment_def)
    with t1 o1 Some show ?thesis by auto
  next
    case None
    with o1 obtain olm nonOlm where ab: "a = Some olm" "b = Some nonOlm"
      and p1: "phases ns ListingOlm t1 = Some (RecycleIdle olm nonOlm)"
      by auto
    obtain r2 st2 where loop: "restartDeployment_olmLoop env cl olm ns st1 = (r2, st2)"
      by (cases "restartDeployment_olmLoop env cl olm ns st1")
    from restartDeployment_olmLoop_phases [OF loop, of nonOlm] obtain t2 ph2 where
      t2: "trace st2 = trace st1 @ t2" and p2: "phases ns (RecycleIdle olm nonOlm) t2 = Some ph2"
      and o2: "(case r2 of Val _ \<Rightarrow> ph2 = RecycleIdle [] nonOlm | Fail e \<Rightarrow> ph2 = Aborted e
                | Panicked e \<Rightarrow> (\<exists>olm'. ph2 = Recycling [] olm' nonOlm))"
      by blast
    have tr12: "trace st2 = trace st @ (t1 @ t2)" using t1 t2 by simp
    have p12: "phases ns ListingOlm (t1 @ t2) = Some ph2"
      using p1 p2 by (rule phases_appendI)
    show ?thesis
    proof (cases r2)
      case (Val u)
      with assms disc None ab loop
      have "restartDeployment_nonOlmLoop env nonOlm ns st2 = (r, st')"
        by (simp add: restartDeployment_def)
      from restartDeployment_nonOlmLoop_phases [OF this] obtain t3 ph3 where
        t3: "trace st' = trace st2 @ t3" and p3: "phases ns (RecycleIdle [] nonOlm) t3 = Some ph3"
        and o3: "finished r ph3"
        by blast
      have "trace st' = trace st @ ((t1 @ t2) @ t3)" using tr12 t3 by simp
      moreover have "phases ns ListingOlm ((t1 @ t2) @ t3) = Some ph3"
        using phases_appendI [OF p12, of t3 ph3] o2 Val p3 by simp
      ultimately show ?thesis using o3 by blast
    next
      case (Fail e)
      with assms disc None ab loop have "r = Fail e" "st' = st2"
        by (simp_all add: restartDeployment_def)
      with tr12 p12 o2 Fail show ?thesis by auto
    next
      case (Panicked e)
      with assms disc None ab loop have "r = Panicked e" "st' = st2"
        by (simp_all add: restartDeployment_def)
      with tr12 p12 o2 Panicked show ?thesis by auto
    qed
  qed
qed

lemma status_selectors_append:
  "status_selectors (a @ b) = status_selectors a @ status_selectors b"
  by (induction a rule: status_selectors.induct) auto

lemma checkRolloutStatus_selectors:
  assumes "checkRolloutStatus env ns st = (r, st')"
    and "fixed_selector (trace st)"
  shows "fixed_selector (trace st')"
proof -
  from checkRolloutStatus_trace [OF assms(1)] obtain t where
    "trace st' = trace st @ t"
    "t = [] \<or> (\<exists>x. t = [EvRolloutStatus (statusCmd ns) x])"
    by (cases r) auto
  with assms(2) show ?thesis
    by (auto simp: fixed_selector_def status_selectors_append statusCmd_def)
qed

lemma restartNonOlmDeployments_selectors:
  assumes "restartNonOlmDeployments env ns d st = (r, st')"
  shows "status_selectors (trace st') = status_selectors (trace st)"
proof -
  from restartNonOlmDeployments_trace [OF assms(1)] obtain t where
    "trace st' = trace st @ t"
    "t = [] \<or> (\<exists>x. t = [EvRolloutRestart (restartOpts ns d) x])"
    by (cases r) auto
  then show ?thesis
    by (auto simp: status_selectors_append)
qed

lemma deletePods_loop_selectors:
  "deletePods_loop cl ps st = (r, st') \<Longrightarrow> status_selectors (trace st') = status_selectors (trace st)"
proof (induction ps arbitrary: st)
  case Nil
  then show ?case by simp
next
  case (Cons p ps)
  obtain x w where del: "delete_pod cl p (world st) = (x, w)" by (cases "delete_pod cl p (world st)")
  have one: "status_selectors (trace (logged (EvDeletePod p x) w st)) = status_selectors (trace st)"
    by (simp add: logged_def status_selectors_append)
  show ?case
  proof (cases x)
    case None
    with Cons.prems del have "deletePods_loop cl ps (logged (EvDeletePod p x) w st) = (r, st')"
      by simp
    from Cons.IH [OF this] one show ?thesis by simp
  next
    case (Some e)
    with Cons.prems del have "st' = logged (EvDeletePod p x) w st" by auto
    with one show ?thesis by simp
  qed
qed

lemma deletePods_selectors:
  assumes "deletePods env cl d ns st = (r, st')"
    and "fixed_selector (trace st)"
  shows "fixed_selector (trace st')"
proof -
  obtain x w where ls: "list_pods cl (dep_selector d) (world st) = (x, w)"
    by (cases "list_pods cl (dep_selector d) (world st)")
  define st1 where "st1 = logged (EvListPods (dep_selector d) x) w st"
  have s1: "status_selectors (trace st1) = status_selectors (trace st)"
    by (simp add: st1_def logged_def status_selectors_append)
  show ?thesis
  proof (cases x)
    case (Inl e)
    with assms(1) ls have "st' = st1" by (auto simp: deletePods_def st1_def)
    with s1 assms(2) show ?thesis by (simp add: fixed_selector_def)
  next
    case (Inr ps)
    obtain r2 st2 where loop: "deletePods_loop cl ps st1 = (r2, st2)"
      by (cases "deletePods_loop cl ps st1")
    from deletePods_loop_selectors [OF loop] s1
    have s2: "status_selectors (trace st2) = status_selectors (trace st)" by simp
    from assms(1) ls Inr loop
    have "checkRolloutStatus env ns st2 = (r, st') \<or> st' = st2"
      by (auto simp: deletePods_def st1_def split: outcome.splits)
    moreover have "fixed_selector (trace st2)"
      using s2 assms(2) by (simp add: fixed_selector_def)
    ultimately show ?thesis
      using checkRolloutStatus_selectors [of env ns st2 r st'] by blast
  qed
qed

lemma restartDeployment_olmLoop_selectors:
  assumes "restartDeployment_olmLoop env cl ds ns st = (r, st')"
    and "fixed_selector (trace st)"
  shows "fixed_selector (trace st')"
  using assms
proof (induction ds arbitrary: st)
  case Nil
  then show ?case by simp
next
  case (Cons d ds)
  obtain r1 st1 where one: "deletePods env cl d ns st = (r1, st1)"
    by (cases "deletePods env cl d ns st")
  from deletePods_selectors [OF one Cons.prems(2)]
  have s1: "fixed_selector (trace st1)" .
  from Cons.prems(1) one
  have "restartDeployment_olmLoop env cl ds ns st1 = (r, st') \<or> st' = st1"
    by (auto split: outcome.splits)
  then show ?case using Cons.IH [OF _ s1] s1 by blast
qed

lemma restartDeployment_nonOlmLoop_selectors:
  assumes "restartDeployment_nonOlmLoop env ds ns st = (r, st')"
    and "fixed_selector (trace st)"
  shows "fixed_selector (trace st')"
  using assms
proof (induction ds arbitrary: st)
  case Nil
  then show ?case by simp
next
  case (Cons d ds)
  obtain r1 st1 where one: "restartNonOlmDeployments env ns d st = (r1, st1)"
    by (cases "restartNonOlmDeployments env ns d st")
  from restartNonOlmDeployments_selectors [OF one] Cons.prems(2)
  have s1: "fixed_selector (trace st1)"
    by (simp add: fixed_selector_def)
  obtain r2 st2 where two: "checkRolloutStatus env ns st1 = (r2, st2)"
    by (cases "checkRolloutStatus env ns st1")
  from checkRolloutStatus_selectors [OF two s1]
  have s2: "fixed_selector (trace st2)" .
  from Cons.prems(1) one two
  have "restartDeployment_nonOlmLoop env ds ns st2 = (r, st') \<or> st' = st2 \<or> st' = st1"
    by (auto split: outcome.splits)
  then show ?case using Cons.IH [OF _ s2] s1 s2 by blast
qed

lemma getExistingDeployments_selectors:
  "getExistingDeployments cl ns st = (x, st') \<Longrightarrow>
     status_selectors (trace st') = status_selectors (trace st)"
  by (auto simp: getExistingDeployments_def logged_def Let_def status_selectors_append
      split: prod.splits sum.splits)

lemma restartDeployment_selectors:
  assumes "restartDeployment env cl ns st = (r, st')"
    and "fixed_selector (trace st)"
  shows "fixed_selector (trace st')"
proof -
  obtain a b x st1 where disc: "getExistingDeployments cl ns st = ((a, b, x), st1)"
    by (metis prod.exhaust)
  from getExistingDeployments_selectors [OF disc] assms(2)
  have s1: "fixed_selector (trace st1)"
    by (simp add: fixed_selector_def)
  show ?thesis
  proof (cases "x = None \<and> a \<noteq> None")
    case False
    with assms(1) disc have "st' = st1"
      by (auto simp: restartDeployment_def split: option.splits)
    with s1 show ?thesis by simp
  next
    case True
    then obtain olm where a: "a = Some olm" and x: "x = None" by auto
    obtain r2 st2 where loop: "restartDeployment_olmLoop env cl olm ns st1 = (r2, st2)"
      by (cases "restartDeployment_olmLoop env cl olm ns st1")
    from restartDeployment_olmLoop_selectors [OF loop s1]
    have s2: "fixed_selector (trace st2)" .
    from assms(1) disc a x loop
    have "st' = st2 \<or> (\<exists>nonOlm. restartDeployment_nonOlmLoop env nonOlm ns st2 = (r, st'))"
      by (auto simp: restartDeployment_def split: outcome.splits option.splits)
    then show ?thesis
      using s2 restartDeployment_nonOlmLoop_selectors [OF _ s2] by blast
  qed
qed

lemma restart_cases:
  assumes "restart env clusterName operatorType st = (r, st')"
  shows "(st' = st \<and> (\<exists>e. r = Fail e))
       \<or> (\<exists>m. st' = logged (EvConfirm m False) (world st) st \<and> r = Val ())
       \<or> (\<exists>cl ns m. restartDeployment env cl ns (logged (EvConfirm m True) (world st) st) = (r, st'))"
proof (cases "loadClusterConfig env clusterName")
  case (Inl e)
  with assms show ?thesis by (auto simp: restart_def)
next
  case (Inr cfg)
  note cfg = this
  show ?thesis
  proof (cases "newClient env (cfg_token cfg) (cfg_serverAPI cfg)")
    case (Inl e)
    with assms cfg show ?thesis by (auto simp: restart_def)
  next
    case (Inr cl)
    note cl = this
    show ?thesis
    proof (cases operatorType)
      case Nil
      with assms cfg cl show ?thesis by (auto simp: restart_def)
    next
      case (Cons op rest)
      define m where "m = confirmationMessage op (cfg_operatorNamespace cfg)"
      show ?thesis
      proof (cases "askForConfirmation env m")
        case True
        with assms cfg cl Cons
        have "restartDeployment env cl (cfg_operatorNamespace cfg)
                (logged (EvConfirm m True) (world st) st) = (r, st')"
          by (simp add: restart_def m_def Let_def)
        then show ?thesis by blast
      next
        case False
        with assms cfg cl Cons
        have "st' = logged (EvConfirm m False) (world st) st \<and> r = Val ()"
          by (auto simp: restart_def m_def Let_def)
        then show ?thesis by blast
      qed
    qed
  qed
qed

section \<open>The scenario of the spec, evaluated\<close>

lemmas mem_defs = memEnv_def memClient_def hostConfig_def scenarioCluster_def hostOperator_def
  protectedCluster_def onlyLifecycleManaged_def onlyDirectlyOwned_def dualLabelled_def
  dualCluster_def brokenComplete_def brokenValidate_def
  registrationService_def podOf_def nameSelector_def has_labels_def selector_matches_def
  requirement_matches_def start_def statusCmd_def restartOpts_def
lemmas fun_defs = Let_def restart_def restartDeployment_def getExistingDeployments_def deletePods_def
  checkRolloutStatus_def restartNonOlmDeployments_def logged_def err_of_def returned_def
  confirmationMessage_def

lemma scenario_run:
  "restart (memEnv True) ''host'' [''host''] (start scenarioCluster) =
    (Val (),
     \<lparr>world = scenarioCluster\<lparr>pods := [podOf ''registration-service'' ''a'']\<rparr>,
      trace = [EvConfirm (confirmationMessage ''host'' ''host-operator-ns'') True,
               EvListDeployments ''host-operator-ns'' [(''olm.owner.kind'', ''ClusterServiceVersion'')] (Inr [hostOperator]),
               EvListDeployments ''host-operator-ns'' [(''provider'', ''codeready-toolchain'')]
                 (Inr [registrationService]),
               EvListPods (nameSelector ''host-operator'')
                 (Inr [podOf ''host-operator'' ''a'', podOf ''host-operator'' ''b'',
                       podOf ''host-operator'' ''c'']),
               EvDeletePod (podOf ''host-operator'' ''a'') None,
               EvDeletePod (podOf ''host-operator'' ''b'') None,
               EvDeletePod (podOf ''host-operator'' ''c'') None,
               EvRolloutStatus (statusCmd ''host-operator-ns'') None,
               EvRolloutRestart (restartOpts ''host-operator-ns'' registrationService) None,
               EvRolloutStatus (statusCmd ''host-operator-ns'') None]\<rparr>)"
  by (simp add: mem_defs fun_defs)

lemma scenario_restartDeployment:
  "restartDeployment (memEnv True) memClient ''host-operator-ns'' (start scenarioCluster) =
    (Val (),
     \<lparr>world = scenarioCluster\<lparr>pods := [podOf ''registration-service'' ''a'']\<rparr>,
      trace = [EvListDeployments ''host-operator-ns'' [(''olm.owner.kind'', ''ClusterServiceVersion'')] (Inr [hostOperator]),
               EvListDeployments ''host-operator-ns'' [(''provider'', ''codeready-toolchain'')]
                 (Inr [registrationService]),
               EvListPods (nameSelector ''host-operator'')
                 (Inr [podOf ''host-operator'' ''a'', podOf ''host-operator'' ''b'',
                       podOf ''host-operator'' ''c'']),
               EvDeletePod (podOf ''host-operator'' ''a'') None,
               EvDeletePod (podOf ''host-operator'' ''b'') None,
               EvDeletePod (podOf ''host-operator'' ''c'') None,
               EvRolloutStatus (statusCmd ''host-operator-ns'') None,
               EvRolloutRestart (restartOpts ''host-operator-ns'' registrationService) None,
               EvRolloutStatus (statusCmd ''host-operator-ns'') None]\<rparr>)"
  by (simp add: mem_defs fun_defs)

lemma phase_step_no_confirm: "phase_step ns ph (EvConfirm m a) = None"
  by (cases ph) simp_all

lemma phases_no_confirm:
  "phases ns ph t = Some ph' \<Longrightarrow> EvConfirm m a \<notin> set t"
proof (induction t arbitrary: ph)
  case Nil
  then show ?case by simp
next
  case (Cons ev t)
  then obtain p where p: "phase_step ns ph ev = Some p" and rest: "phases ns p t = Some ph'"
    by (auto split: option.splits)
  have "ev \<noteq> EvConfirm m a"
    using p by (auto simp: phase_step_no_confirm)
  with Cons.IH [OF rest] show ?case by simp
qed

section \<open>The selector of the rollout-status wait\<close>

text \<open>
  Claim C8. Whatever \<open>restart\<close> is called with and whatever the cluster answers, every
  rollout-status wait it makes (after recycling a lifecycle-managed deployment as well as
  after restarting a directly-owned one) is given the label selector
  \<open>provider=codeready-toolchain\<close>: the selector is a constant of \<open>checkRolloutStatus\<close>,
  which does not receive the deployment at all.
\<close>

theorem rollout_status_selector_fixed:
  assumes "restart env clusterName operatorType (start w) = (r, st')"
  shows "\<forall>s \<in> set (status_selectors (trace st')). s = ''provider=codeready-toolchain''"
proof -
  have conf: "fixed_selector (trace (logged (EvConfirm m a) w' (start w)))" for m a w'
    by (simp add: fixed_selector_def logged_def start_def)
  from restart_cases [OF assms]
  consider "st' = start w"
    | m where "st' = logged (EvConfirm m False) (world (start w)) (start w)"
    | cl ns m where "restartDeployment env cl ns
         (logged (EvConfirm m True) (world (start w)) (start w)) = (r, st')"
    by blast
  then have "fixed_selector (trace st')"
  proof cases
    case 1
    then show ?thesis by (simp add: fixed_selector_def start_def)
  next
    case 2
    then show ?thesis by (simp add: conf)
  next
    case 3
    then show ?thesis using conf by (rule restartDeployment_selectors)
  qed
  then show ?thesis by (simp add: fixed_selector_def)
qed

text \<open>
  In the scenario of the spec both waits happen, one after the recycling of
  \<open>host-operator\<close> and one after the restart of \<open>registration-service\<close>, and both carry
  the provider label.
\<close>

theorem rollout_status_selector_fixed_witness:
  "restart (memEnv True) ''host'' [''host''] (start scenarioCluster) =
     (Val (), snd (restart (memEnv True) ''host'' [''host''] (start scenarioCluster)))
   \<and> status_selectors (trace (snd (restart (memEnv True) ''host'' [''host''] (start scenarioCluster))))
       = [''provider=codeready-toolchain'', ''provider=codeready-toolchain'']"
proof -
  have run: "restart (memEnv True) ''host'' [''host''] (start scenarioCluster) =
     (Val (), snd (restart (memEnv True) ''host'' [''host''] (start scenarioCluster)))"
    by (simp add: scenario_run)
  have sel: "status_selectors (trace (snd (restart (memEnv True) ''host'' [''host''] (start scenarioCluster))))
       = [''provider=codeready-toolchain'', ''provider=codeready-toolchain'']"
    by (simp add: scenario_run statusCmd_def)
  show ?thesis
    using run sel rollout_status_selector_fixed [OF run] by simp
qed

section \<open>Declining the confirmation\<close>

text \<open>
  Claim C3. Whenever the prompt of \<open>restart\<close> was answered with anything but yes (the
  trace of the run records a confirmation answered \<open>False\<close>), the run deleted no pod and
  restarted no deployment, left the cluster as it was, and returned \<open>nil\<close>.
\<close>

theorem declined_confirmation_is_noop:
  assumes "restart env clusterName operatorType (start w) = (r, st')"
    and "EvConfirm m False \<in> set (trace st')"
  shows "r = Val () \<and> filter is_mutation (trace st') = [] \<and> world st' = w"
proof -
  from restart_cases [OF assms(1)]
  consider "st' = start w"
    | m' where "st' = logged (EvConfirm m' False) (world (start w)) (start w)" "r = Val ()"
    | cl ns m' where "restartDeployment env cl ns
         (logged (EvConfirm m' True) (world (start w)) (start w)) = (r, st')"
    by blast
  then show ?thesis
  proof cases
    case 1
    with assms(2) show ?thesis by (simp add: start_def)
  next
    case 2
    then show ?thesis by (simp add: logged_def start_def)
  next
    case 3
    from restartDeployment_phases [OF 3] obtain t ph where
      t: "trace st' = trace (logged (EvConfirm m' True) (world (start w)) (start w)) @ t"
      and ph: "phases ns ListingOlm t = Some ph"
      by blast
    from phases_no_confirm [OF ph] have "EvConfirm m False \<notin> set t" .
    with t assms(2) show ?thesis by (simp add: logged_def start_def)
  qed
qed

text \<open>The scenario of the spec with a negative answer: the only call is the prompt.\<close>

theorem declined_confirmation_is_noop_witness:
  "restart (memEnv False) ''host'' [''host''] (start scenarioCluster) =
     (Val (), \<lparr>world = scenarioCluster,
               trace = [EvConfirm (confirmationMessage ''host'' ''host-operator-ns'') False]\<rparr>)
   \<and> filter is_mutation [EvConfirm (confirmationMessage ''host'' ''host-operator-ns'') False] = []"
proof -
  have run: "restart (memEnv False) ''host'' [''host''] (start scenarioCluster) =
     (Val (), \<lparr>world = scenarioCluster,
               trace = [EvConfirm (confirmationMessage ''host'' ''host-operator-ns'') False]\<rparr>)"
    by (simp add: mem_defs fun_defs)
  have asked: "EvConfirm (confirmationMessage ''host'' ''host-operator-ns'') False
      \<in> set (trace \<lparr>world = scenarioCluster,
               trace = [EvConfirm (confirmationMessage ''host'' ''host-operator-ns'') False]\<rparr>)"
    by simp
  show ?thesis
    using run declined_confirmation_is_noop [OF run asked] by simp
qed

section \<open>A pod deletion that fails\<close>

text \<open>
  Claim C4. If during \<open>deletePods\<close>, or anywhere in \<open>restartDeployment\<close>, the deletion
  of a pod fails with error \<open>e\<close>, then this deletion is the last call of the run and \<open>e\<close>
  is what the run returns: no later pod of the deployment is deleted, no rollout-status
  wait follows for it, and no later deployment is recycled or restarted.
\<close>

theorem pod_deletion_failure_aborts:
  assumes "deletePods env cl d ns st = (r, st') \<or> restartDeployment env cl ns st = (r, st')"
    and "trace st' = trace st @ xs @ EvDeletePod p (Some e) # ys"
  shows "ys = [] \<and> r = Fail e"
  using assms(1)
proof
  assume "deletePods env cl d ns st = (r, st')"
  from deletePods_phases [OF this, of "[]" "[]"] obtain t ph' where
    t: "trace st' = trace st @ t" and ph: "phases ns (RecycleIdle [d] []) t = Some ph'"
    and o: "(case r of Val _ \<Rightarrow> ph' = RecycleIdle [] [] | Fail e \<Rightarrow> ph' = Aborted e
            | Panicked e \<Rightarrow> ph' = Recycling [] [] [])"
    by blast
  from t assms(2) have "t = xs @ EvDeletePod p (Some e) # ys" by simp
  with ph have "phases ns (RecycleIdle [d] []) (xs @ EvDeletePod p (Some e) # ys) = Some ph'"
    by simp
  from phases_failure_last [OF this] have ys: "ys = []" and ab: "ph' = Aborted e"
    by simp_all
  from ab o have "r = Fail e" by (cases r) auto
  with ys show ?thesis by simp
next
  assume "restartDeployment env cl ns st = (r, st')"
  from restartDeployment_phases [OF this] obtain t ph' where
    t: "trace st' = trace st @ t" and ph: "phases ns ListingOlm t = Some ph'"
    and o: "finished r ph'"
    by blast
  from t assms(2) have "t = xs @ EvDeletePod p (Some e) # ys" by simp
  with ph have "phases ns ListingOlm (xs @ EvDeletePod p (Some e) # ys) = Some ph'" by simp
  from phases_failure_last [OF this] have ys: "ys = []" and ab: "ph' = Aborted e"
    by simp_all
  from ab o have "r = Fail e" by (cases r) auto
  with ys show ?thesis by simp
qed

text \<open>
  With the second pod of \<open>host-operator\<close> protected, the run deletes the first pod, fails
  on the second and stops: the third pod and \<open>registration-service\<close> are left alone.
\<close>

theorem pod_deletion_failure_aborts_witness:
  "restartDeployment (memEnv True) memClient ''host-operator-ns'' (start protectedCluster) =
     (Fail (Err ''pods host-operator-b is forbidden''),
      \<lparr>world = protectedCluster\<lparr>pods := [podOf ''host-operator'' ''b'', podOf ''host-operator'' ''c'',
                                          podOf ''registration-service'' ''a'']\<rparr>,
       trace = [] @
         [EvListDeployments ''host-operator-ns'' [(''olm.owner.kind'', ''ClusterServiceVersion'')] (Inr [hostOperator]),
          EvListDeployments ''host-operator-ns'' [(''provider'', ''codeready-toolchain'')]
                 (Inr [registrationService]),
          EvListPods (nameSelector ''host-operator'')
            (Inr [podOf ''host-operator'' ''a'', podOf ''host-operator'' ''b'',
                  podOf ''host-operator'' ''c'']),
          EvDeletePod (podOf ''host-operator'' ''a'') None] @
         EvDeletePod (podOf ''host-operator'' ''b'') (Some (Err ''pods host-operator-b is forbidden''))
           # []\<rparr>)"
proof -
  let ?st' = "\<lparr>world = protectedCluster\<lparr>pods := [podOf ''host-operator'' ''b'', podOf ''host-operator'' ''c'',
                                          podOf ''registration-service'' ''a'']\<rparr>,
       trace = [] @
         [EvListDeployments ''host-operator-ns'' [(''olm.owner.kind'', ''ClusterServiceVersion'')] (Inr [hostOperator]),
          EvListDeployments ''host-operator-ns'' [(''provider'', ''codeready-toolchain'')]
                 (Inr [registrationService]),
          EvListPods (nameSelector ''host-operator'')
            (Inr [podOf ''host-operator'' ''a'', podOf ''host-operator'' ''b'',
                  podOf ''host-operator'' ''c'']),
          EvDeletePod (podOf ''host-operator'' ''a'') None] @
         EvDeletePod (podOf ''host-operator'' ''b'') (Some (Err ''pods host-operator-b is forbidden''))
           # []\<rparr>"
  have run: "restartDeployment (memEnv True) memClient ''host-operator-ns'' (start protectedCluster) =
     (Fail (Err ''pods host-operator-b is forbidden''), ?st')"
    by (simp add: mem_defs fun_defs)
  have tr: "trace ?st' = trace (start protectedCluster) @
         [EvListDeployments ''host-operator-ns'' [(''olm.owner.kind'', ''ClusterServiceVersion'')] (Inr [hostOperator]),
          EvListDeployments ''host-operator-ns'' [(''provider'', ''codeready-toolchain'')]
                 (Inr [registrationService]),
          EvListPods (nameSelector ''host-operator'')
            (Inr [podOf ''host-operator'' ''a'', podOf ''host-operator'' ''b'',
                  podOf ''host-operator'' ''c'']),
          EvDeletePod (podOf ''host-operator'' ''a'') None] @
         EvDeletePod (podOf ''host-operator'' ''b'') (Some (Err ''pods host-operator-b is forbidden''))
           # []"
    by (simp add: start_def)
  show ?thesis
    using run pod_deletion_failure_aborts [OF disjI2 [OF run] tr] by simp
qed

section \<open>The order of the calls\<close>

lemma finished_Val: "finished (Val u) ph \<Longrightarrow> ph = RecycleIdle [] []"
  by (erule finished.elims) auto

lemma twoOfEach_restartDeployment:
  "restartDeployment (memEnv True) memClient ''host-operator-ns'' (start twoOfEachCluster) =
    (Val (),
     \<lparr>world = twoOfEachCluster\<lparr>pods := [podOf ''registration-service'' ''a'',
                                          podOf ''member-operator-webhook'' ''a'']\<rparr>,
      trace = [EvListDeployments ''host-operator-ns'' [(''olm.owner.kind'', ''ClusterServiceVersion'')]
                 (Inr [hostOperator, memberOperator]),
               EvListDeployments ''host-operator-ns'' [(''provider'', ''codeready-toolchain'')]
                 (Inr [registrationService, memberWebhook]),
               EvListPods (nameSelector ''host-operator'')
                 (Inr [podOf ''host-operator'' ''a'', podOf ''host-operator'' ''b'']),
               EvDeletePod (podOf ''host-operator'' ''a'') None,
               EvDeletePod (podOf ''host-operator'' ''b'') None,
               EvRolloutStatus (statusCmd ''host-operator-ns'') None,
               EvListPods (nameSelector ''member-operator'')
                 (Inr [podOf ''member-operator'' ''a'']),
               EvDeletePod (podOf ''member-operator'' ''a'') None,
               EvRolloutStatus (statusCmd ''host-operator-ns'') None,
               EvRolloutRestart (restartOpts ''host-operator-ns'' registrationService) None,
               EvRolloutStatus (statusCmd ''host-operator-ns'') None,
               EvRolloutRestart (restartOpts ''host-operator-ns'' memberWebhook) None,
               EvRolloutStatus (statusCmd ''host-operator-ns'') None]\<rparr>)"
  by (simp add: mem_defs fun_defs twoOfEachCluster_def memberOperator_def memberWebhook_def)

text \<open>
  The recogniser is strict. With \<open>host-operator\<close> and \<open>member-operator\<close> to recycle and
  \<open>registration-service\<close> to restart, it refuses
  \<^item> a restart while a deployment is still to be recycled;
  \<^item> the pods of \<open>member-operator\<close> listed, or one of them deleted, while the recycle of
    \<open>host-operator\<close> has not been closed by its wait;
  \<^item> the wait while a listed pod of \<open>host-operator\<close> is still to be deleted;
  \<^item> the recycle of \<open>member-operator\<close> before that of \<open>host-operator\<close>;
  \<^item> a second restart before the wait of the first;
  and a run that returns \<open>nil\<close> with a deployment still to be recycled or restarted has
  not finished.
\<close>

lemma phases_refuses_restart_before_recycle:
  "phases ''host-operator-ns'' (RecycleIdle [hostOperator, memberOperator] [registrationService])
     [EvRolloutRestart (restartOpts ''host-operator-ns'' registrationService) None] = None"
  by simp

lemma phases_refuses_next_recycle_before_wait:
  "phases ''host-operator-ns'' (RecycleIdle [hostOperator, memberOperator] [registrationService])
     [EvListPods (nameSelector ''host-operator'') (Inr [podOf ''host-operator'' ''a'']),
      EvDeletePod (podOf ''host-operator'' ''a'') None,
      EvListPods (nameSelector ''member-operator'') (Inr [podOf ''member-operator'' ''a''])] = None
   \<and> phases ''host-operator-ns'' (RecycleIdle [hostOperator, memberOperator] [registrationService])
     [EvListPods (nameSelector ''host-operator'') (Inr [podOf ''host-operator'' ''a'']),
      EvDeletePod (podOf ''host-operator'' ''a'') None,
      EvDeletePod (podOf ''member-operator'' ''a'') None] = None"
  by (simp add: hostOperator_def after_call_def)

lemma phases_refuses_wait_before_deletions:
  "phases ''host-operator-ns'' (RecycleIdle [hostOperator, memberOperator] [registrationService])
     [EvListPods (nameSelector ''host-operator'')
        (Inr [podOf ''host-operator'' ''a'', podOf ''host-operator'' ''b'']),
      EvDeletePod (podOf ''host-operator'' ''a'') None,
      EvRolloutStatus (statusCmd ''host-operator-ns'') None] = None"
  by (simp add: hostOperator_def after_call_def)

lemma phases_refuses_other_deployment:
  "phases ''host-operator-ns'' (RecycleIdle [hostOperator, memberOperator] [registrationService])
     [EvListPods (nameSelector ''member-operator'') (Inr [podOf ''member-operator'' ''a''])] = None
   \<and> phases ''host-operator-ns'' (RecycleIdle [hostOperator, memberOperator] [registrationService])
     [EvListPods (nameSelector ''registration-service'')
        (Inr [podOf ''registration-service'' ''a''])] = None"
  by (simp add: hostOperator_def nameSelector_def)

lemma phases_refuses_restart_before_wait:
  "phases ''host-operator-ns'' (RecycleIdle [] [registrationService, memberWebhook])
     [EvRolloutRestart (restartOpts ''host-operator-ns'' registrationService) None,
      EvRolloutRestart (restartOpts ''host-operator-ns'' memberWebhook) None] = None"
  by (simp add: after_call_def)

lemma finished_needs_every_deployment:
  "\<not> finished (Val ()) (RecycleIdle [memberOperator] [])
   \<and> \<not> finished (Val ()) (RecycleIdle [] [memberWebhook])
   \<and> \<not> finished (Val ()) (RestartTriggered [])
   \<and> \<not> finished (Val ()) (Recycling [] [] [])"
  by simp

text \<open>
  Claim C6. The calls of every run of \<open>restartDeployment\<close>, whatever the cluster answers,
  are accepted by the recogniser \<open>phases\<close>, which follows the two lists that discovery
  returned. The lifecycle-managed deployments are recycled one after the other, in the
  order of their list: the pods are listed by the selector of the deployment, exactly the
  listed pods are deleted, in order, and the rollout-status wait follows; the pods of the
  next deployment are listed only after this wait. The first restart is triggered only
  when no lifecycle-managed deployment is left to recycle. The directly-owned deployments
  are restarted one after the other, in the order of their list, each trigger followed by
  its rollout-status wait before the next trigger. A run that returns \<open>nil\<close> has recycled
  and restarted every listed deployment; a run that returns an error made the failed
  call last; a run that panics stopped where a rollout request is built.
\<close>

theorem orchestration_order:
  assumes "restartDeployment env cl ns (start w) = (r, st')"
  shows "\<exists>ph. phases ns ListingOlm (trace st') = Some ph \<and> finished r ph"
  using restartDeployment_phases [OF assms] by (simp add: start_def)

text \<open>
  With two deployments of each class: \<open>host-operator\<close> is recycled (two deletions and
  the wait), then \<open>member-operator\<close> (one deletion and the wait), then
  \<open>registration-service\<close> is restarted and waited for, then \<open>member-operator-webhook\<close>.
\<close>

theorem orchestration_order_witness:
  "restartDeployment (memEnv True) memClient ''host-operator-ns'' (start twoOfEachCluster) =
    (Val (),
     \<lparr>world = twoOfEachCluster\<lparr>pods := [podOf ''registration-service'' ''a'',
                                          podOf ''member-operator-webhook'' ''a'']\<rparr>,
      trace = [EvListDeployments ''host-operator-ns'' [(''olm.owner.kind'', ''ClusterServiceVersion'')]
                 (Inr [hostOperator, memberOperator]),
               EvListDeployments ''host-operator-ns'' [(''provider'', ''codeready-toolchain'')]
                 (Inr [registrationService, memberWebhook]),
               EvListPods (nameSelector ''host-operator'')
                 (Inr [podOf ''host-operator'' ''a'', podOf ''host-operator'' ''b'']),
               EvDeletePod (podOf ''host-operator'' ''a'') None,
               EvDeletePod (podOf ''host-operator'' ''b'') None,
               EvRolloutStatus (statusCmd ''host-operator-ns'') None,
               EvListPods (nameSelector ''member-operator'')
                 (Inr [podOf ''member-operator'' ''a'']),
               EvDeletePod (podOf ''member-operator'' ''a'') None,
               EvRolloutStatus (statusCmd ''host-operator-ns'') None,
               EvRolloutRestart (restartOpts ''host-operator-ns'' registrationService) None,
               EvRolloutStatus (statusCmd ''host-operator-ns'') None,
               EvRolloutRestart (restartOpts ''host-operator-ns'' memberWebhook) None,
               EvRolloutStatus (statusCmd ''host-operator-ns'') None]\<rparr>)
   \<and> phases ''host-operator-ns'' ListingOlm
        (trace (snd (restartDeployment (memEnv True) memClient ''host-operator-ns''
           (start twoOfEachCluster)))) = Some (RecycleIdle [] [])
   \<and> finished (Val ()) (RecycleIdle [] [])"
proof -
  let ?st' = "snd (restartDeployment (memEnv True) memClient ''host-operator-ns''
           (start twoOfEachCluster))"
  have run: "restartDeployment (memEnv True) memClient ''host-operator-ns'' (start twoOfEachCluster)
      = (Val (), ?st')"
    by (simp add: twoOfEach_restartDeployment)
  from orchestration_order [OF run] obtain ph where
    ph: "phases ''host-operator-ns'' ListingOlm (trace ?st') = Some ph" and fin: "finished (Val ()) ph"
    by blast
  have "ph = RecycleIdle [] []"
    using fin by (rule finished_Val)
  with ph show ?thesis
    by (simp add: twoOfEach_restartDeployment)
qed

section \<open>Validation failures\<close>

text \<open>
  Claim C7. When \<open>Complete\<close> or \<open>Validate\<close> of the rollout-status request fails,
  \<open>checkRolloutStatus\<close> panics with that error, and when \<open>Complete\<close> or \<open>Validate\<close> of
  the rollout-restart request fails, \<open>restartNonOlmDeployments\<close> panics with it; neither
  returns the error, and neither has made a call by then.
\<close>

theorem validation_failure_panics:
  "(statusComplete env [''deployment''] = Some e
      \<longrightarrow> checkRolloutStatus env ns st = (Panicked e, st))
   \<and> (statusComplete env [''deployment''] = None \<and> statusValidate env (statusCmd ns) = Some e
      \<longrightarrow> checkRolloutStatus env ns st = (Panicked e, st))
   \<and> (restartComplete env [''deployments''] = Some e
      \<longrightarrow> restartNonOlmDeployments env ns d st = (Panicked e, st))
   \<and> (restartComplete env [''deployments''] = None \<and> restartValidate env (restartOpts ns d) = Some e
      \<longrightarrow> restartNonOlmDeployments env ns d st = (Panicked e, st))"
  by (simp add: checkRolloutStatus_def restartNonOlmDeployments_def statusCmd_def restartOpts_def)

text \<open>
  Two environments, one where both \<open>Complete\<close> calls fail, one where both \<open>Validate\<close>
  calls do. No caller recovers: in the first, the whole command panics at the first
  rollout-status wait, after the three pods of \<open>host-operator\<close> were deleted.
\<close>

theorem validation_failure_panics_witness:
  "checkRolloutStatus brokenComplete ''host-operator-ns'' (start scenarioCluster)
     = (Panicked (Err ''invalid configuration''), start scenarioCluster)
   \<and> restartNonOlmDeployments brokenComplete ''host-operator-ns'' registrationService (start scenarioCluster)
     = (Panicked (Err ''invalid configuration''), start scenarioCluster)
   \<and> checkRolloutStatus brokenValidate ''host-operator-ns'' (start scenarioCluster)
     = (Panicked (Err ''required resource not specified''), start scenarioCluster)
   \<and> restartNonOlmDeployments brokenValidate ''host-operator-ns'' registrationService (start scenarioCluster)
     = (Panicked (Err ''required resource not specified''), start scenarioCluster)
   \<and> restart brokenComplete ''host'' [''host''] (start scenarioCluster)
     = (Panicked (Err ''invalid configuration''),
        \<lparr>world = scenarioCluster\<lparr>pods := [podOf ''registration-service'' ''a'']\<rparr>,
         trace = [EvConfirm (confirmationMessage ''host'' ''host-operator-ns'') True,
                  EvListDeployments ''host-operator-ns'' [(''olm.owner.kind'', ''ClusterServiceVersion'')] (Inr [hostOperator]),
                  EvListDeployments ''host-operator-ns'' [(''provider'', ''codeready-toolchain'')]
                 (Inr [registrationService]),
                  EvListPods (nameSelector ''host-operator'')
                    (Inr [podOf ''host-operator'' ''a'', podOf ''host-operator'' ''b'',
                          podOf ''host-operator'' ''c'']),
                  EvDeletePod (podOf ''host-operator'' ''a'') None,
                  EvDeletePod (podOf ''host-operator'' ''b'') None,
                  EvDeletePod (podOf ''host-operator'' ''c'') None]\<rparr>)"
proof -
  have whole: "restart brokenComplete ''host'' [''host''] (start scenarioCluster)
     = (Panicked (Err ''invalid configuration''),
        \<lparr>world = scenarioCluster\<lparr>pods := [podOf ''registration-service'' ''a'']\<rparr>,
         trace = [EvConfirm (confirmationMessage ''host'' ''host-operator-ns'') True,
                  EvListDeployments ''host-operator-ns'' [(''olm.owner.kind'', ''ClusterServiceVersion'')] (Inr [hostOperator]),
                  EvListDeployments ''host-operator-ns'' [(''provider'', ''codeready-toolchain'')]
                 (Inr [registrationService]),
                  EvListPods (nameSelector ''host-operator'')
                    (Inr [podOf ''host-operator'' ''a'', podOf ''host-operator'' ''b'',
                          podOf ''host-operator'' ''c'']),
                  EvDeletePod (podOf ''host-operator'' ''a'') None,
                  EvDeletePod (podOf ''host-operator'' ''b'') None,
                  EvDeletePod (podOf ''host-operator'' ''c'') None]\<rparr>)"
    by (simp add: mem_defs fun_defs)
  have c1: "statusComplete brokenComplete [''deployment''] = Some (Err ''invalid configuration'')"
    and c2: "restartComplete brokenComplete [''deployments''] = Some (Err ''invalid configuration'')"
    by (simp_all add: brokenComplete_def memEnv_def)
  have v1: "statusComplete brokenValidate [''deployment''] = None
      \<and> statusValidate brokenValidate (statusCmd ''host-operator-ns'')
          = Some (Err ''required resource not specified'')"
    and v2: "restartComplete brokenValidate [''deployments''] = None
      \<and> restartValidate brokenValidate (restartOpts ''host-operator-ns'' registrationService)
          = Some (Err ''required resource not specified'')"
    by (simp_all add: brokenValidate_def memEnv_def)
  show ?thesis
    using c1 c2 v1 v2 whole
      validation_failure_panics [of brokenComplete "Err ''invalid configuration''"
        "''host-operator-ns''" "start scenarioCluster" registrationService]
      validation_failure_panics [of brokenValidate "Err ''required resource not specified''"
        "''host-operator-ns''" "start scenarioCluster" registrationService]
    by simp
qed

section \<open>No operator type\<close>

text \<open>
  Claim C9. Once the cluster configuration is loaded and the client is built, \<open>restart\<close>
  with an empty operator-type list returns the error that names \<open>host\<close>, \<open>member-1\<close> and
  \<open>member-2\<close>, and the state is the one it started from: nothing was asked, deleted or
  restarted.
\<close>

theorem missing_operator_type_is_error:
  assumes "loadClusterConfig env clusterName = Inr cfg"
    and "newClient env (cfg_token cfg) (cfg_serverAPI cfg) = Inr cl"
  shows "restart env clusterName [] st =
    (Fail (Err ''please mention one of the following operator names to restart: host | member-1 | member-2''),
     st)"
  using assms by (simp add: restart_def operatorNamesError_def)

text \<open>The in-memory environment knows the cluster \<open>host\<close> and builds a client for it.\<close>

theorem missing_operator_type_is_error_witness:
  "loadClusterConfig (memEnv True) ''host'' = Inr hostConfig
   \<and> newClient (memEnv True) (cfg_token hostConfig) (cfg_serverAPI hostConfig) = Inr memClient
   \<and> restart (memEnv True) ''host'' [] (start scenarioCluster) =
    (Fail (Err ''please mention one of the following operator names to restart: host | member-1 | member-2''),
     start scenarioCluster)"
proof -
  have cfg: "loadClusterConfig (memEnv True) ''host'' = Inr hostConfig"
    and cl: "newClient (memEnv True) (cfg_token hostConfig) (cfg_serverAPI hostConfig) = Inr memClient"
    by (simp_all add: memEnv_def)
  show ?thesis
    using cfg cl missing_operator_type_is_error [OF cfg cl, of "start scenarioCluster"] by simp
qed

section \<open>The trace is only written\<close>

lemma trace_blindI:
  fixes f :: "'w run_state \<Rightarrow> 'a \<times> 'w run_state"
  assumes "\<And>w. \<exists>r w' u. \<forall>t. f \<lparr>world = w, trace = t\<rparr> = (r, \<lparr>world = w', trace = t @ u\<rparr>)"
  shows "trace_blind f"
  unfolding trace_blind_def
proof
  fix st :: "'w run_state"
  obtain w t0 where st: "st = \<lparr>world = w, trace = t0\<rparr>" by (cases st) simp
  from assms [of w] obtain r w' u where
    all: "\<And>t. f \<lparr>world = w, trace = t\<rparr> = (r, \<lparr>world = w', trace = t @ u\<rparr>)"
    by blast
  show "\<exists>u. trace (snd (f st)) = trace st @ u
       \<and> (\<forall>t. f (st\<lparr>trace := t\<rparr>) = (fst (f st), (snd (f st))\<lparr>trace := t @ u\<rparr>))"
    by (rule exI [of _ u]) (simp add: st all)
qed

lemma trace_blindD:
  assumes "trace_blind f"
  shows "\<exists>r w' u. \<forall>t. f \<lparr>world = w, trace = t\<rparr> = (r, \<lparr>world = w', trace = t @ u\<rparr>)"
proof -
  define st0 where "st0 = \<lparr>world = w, trace = []\<rparr>"
  from assms have "\<exists>u. trace (snd (f st0)) = trace st0 @ u
       \<and> (\<forall>t. f (st0\<lparr>trace := t\<rparr>) = (fst (f st0), (snd (f st0))\<lparr>trace := t @ u\<rparr>))"
    unfolding trace_blind_def by (rule spec)
  then obtain u where
    all: "\<And>t. f (st0\<lparr>trace := t\<rparr>) = (fst (f st0), (snd (f st0))\<lparr>trace := t @ u\<rparr>)"
    by blast
  obtain w' t' where s: "snd (f st0) = \<lparr>world = w', trace = t'\<rparr>"
    by (cases "snd (f st0)") simp
  have "f \<lparr>world = w, trace = t\<rparr> = (fst (f st0), \<lparr>world = w', trace = t @ u\<rparr>)" for t
    using all [of t] s by (simp add: st0_def)
  then show ?thesis by blast
qed

lemma trace_blind_and_then:
  assumes "trace_blind f" and "trace_blind g"
  shows "trace_blind (and_then f g)"
proof (rule trace_blindI)
  fix w
  from trace_blindD [OF assms(1), of w] obtain r1 w1 u1 where
    f: "\<And>t. f \<lparr>world = w, trace = t\<rparr> = (r1, \<lparr>world = w1, trace = t @ u1\<rparr>)"
    by blast
  from trace_blindD [OF assms(2), of w1] obtain r2 w2 u2 where
    g: "\<And>t. g \<lparr>world = w1, trace = t\<rparr> = (r2, \<lparr>world = w2, trace = t @ u2\<rparr>)"
    by blast
  show "\<exists>r w' u. \<forall>t. and_then f g \<lparr>world = w, trace = t\<rparr> = (r, \<lparr>world = w', trace = t @ u\<rparr>)"
  proof (cases r1)
    case (Val x)
    then have "and_then f g \<lparr>world = w, trace = t\<rparr> = (r2, \<lparr>world = w2, trace = t @ (u1 @ u2)\<rparr>)" for t
      by (simp add: and_then_def f g)
    then show ?thesis by blast
  next
    case (Fail e)
    then have "and_then f g \<lparr>world = w, trace = t\<rparr> = (Fail e, \<lparr>world = w1, trace = t @ u1\<rparr>)" for t
      by (simp add: and_then_def f)
    then show ?thesis by blast
  next
    case (Panicked e)
    then have "and_then f g \<lparr>world = w, trace = t\<rparr> = (Panicked e, \<lparr>world = w1, trace = t @ u1\<rparr>)" for t
      by (simp add: and_then_def f)
    then show ?thesis by blast
  qed
qed

lemma trace_blind_return: "trace_blind (\<lambda>st. (r, st))"
proof (rule trace_blindI)
  fix w
  have "(\<lambda>st. (r, st)) \<lparr>world = w, trace = t\<rparr> = (r, \<lparr>world = w, trace = t @ []\<rparr>)" for t
    by simp
  then show "\<exists>r' w' u. \<forall>t. (\<lambda>st. (r, st)) \<lparr>world = w, trace = t\<rparr> = (r', \<lparr>world = w', trace = t @ u\<rparr>)"
    by blast
qed

lemma checkRolloutStatus_blind: "trace_blind (checkRolloutStatus env ns)"
proof (rule trace_blindI)
  fix w
  obtain x w' where run: "statusRun env (statusCmd ns) w = (x, w')"
    by (cases "statusRun env (statusCmd ns) w")
  consider e where "\<And>t. checkRolloutStatus env ns \<lparr>world = w, trace = t\<rparr>
        = (Panicked e, \<lparr>world = w, trace = t @ []\<rparr>)"
    | "\<And>t. checkRolloutStatus env ns \<lparr>world = w, trace = t\<rparr>
        = (returned x, \<lparr>world = w', trace = t @ [EvRolloutStatus (statusCmd ns) x]\<rparr>)"
    using run
    by (cases "statusComplete env [''deployment'']"; cases "statusValidate env (statusCmd ns)")
       (simp_all add: checkRolloutStatus_def statusCmd_def logged_def)
  then show "\<exists>r w' u. \<forall>t. checkRolloutStatus env ns \<lparr>world = w, trace = t\<rparr>
      = (r, \<lparr>world = w', trace = t @ u\<rparr>)"
    by cases blast+
qed

lemma restartNonOlmDeployments_blind: "trace_blind (restartNonOlmDeployments env ns d)"
proof (rule trace_blindI)
  fix w
  obtain x w' where run: "runRestart env (restartOpts ns d) w = (x, w')"
    by (cases "runRestart env (restartOpts ns d) w")
  consider e where "\<And>t. restartNonOlmDeployments env ns d \<lparr>world = w, trace = t\<rparr>
        = (Panicked e, \<lparr>world = w, trace = t @ []\<rparr>)"
    | "\<And>t. restartNonOlmDeployments env ns d \<lparr>world = w, trace = t\<rparr>
        = (returned x, \<lparr>world = w', trace = t @ [EvRolloutRestart (restartOpts ns d) x]\<rparr>)"
    using run
    by (cases "restartComplete env [''deployments'']"; cases "restartValidate env (restartOpts ns d)")
       (simp_all add: restartNonOlmDeployments_def restartOpts_def logged_def)
  then show "\<exists>r w' u. \<forall>t. restartNonOlmDeployments env ns d \<lparr>world = w, trace = t\<rparr>
      = (r, \<lparr>world = w', trace = t @ u\<rparr>)"
    by cases blast+
qed


lemma trace_blind_call:
  "trace_blind (\<lambda>st. let (r, w) = c (world st) in (g r, logged (ev r) w st))"
proof (rule trace_blindI)
  fix w
  obtain x w' where c: "c w = (x, w')" by (cases "c w")
  have "(\<lambda>st. let (r, w) = c (world st) in (g r, logged (ev r) w st)) \<lparr>world = w, trace = t\<rparr>
      = (g x, \<lparr>world = w', trace = t @ [ev x]\<rparr>)" for t
    by (simp add: c logged_def)
  then show "\<exists>r w' u. \<forall>t.
      (\<lambda>st. let (r, w) = c (world st) in (g r, logged (ev r) w st)) \<lparr>world = w, trace = t\<rparr>
        = (r, \<lparr>world = w', trace = t @ u\<rparr>)"
    by blast
qed

lemma deletePods_loop_Cons:
  "deletePods_loop cl (p # ps) =
     and_then (\<lambda>st. let (r, w) = delete_pod cl p (world st)
                     in (returned r, logged (EvDeletePod p r) w st))
              (deletePods_loop cl ps)"
  by (rule ext) (simp add: and_then_def returned_def split: prod.splits option.splits)

lemma deletePods_loop_blind: "trace_blind (deletePods_loop cl ps)"
proof (induction ps)
  case Nil
  have "deletePods_loop cl [] = (\<lambda>st. (Val (), st))" by (rule ext) simp
  then show ?case by (simp add: trace_blind_return)
next
  case (Cons p ps)
  show ?case
    unfolding deletePods_loop_Cons
    by (rule trace_blind_and_then [OF trace_blind_call Cons.IH])
qed

lemma deletePods_blind: "trace_blind (deletePods env cl d ns)"
proof (rule trace_blindI)
  fix w
  obtain x w1 where ls: "list_pods cl (dep_selector d) w = (x, w1)"
    by (cases "list_pods cl (dep_selector d) w")
  show "\<exists>r w' u. \<forall>t. deletePods env cl d ns \<lparr>world = w, trace = t\<rparr>
      = (r, \<lparr>world = w', trace = t @ u\<rparr>)"
  proof (cases x)
    case (Inl e)
    then have "deletePods env cl d ns \<lparr>world = w, trace = t\<rparr>
        = (Fail e, \<lparr>world = w1, trace = t @ [EvListPods (dep_selector d) (Inl e)]\<rparr>)" for t
      by (simp add: deletePods_def ls logged_def err_of_def)
    then show ?thesis by blast
  next
    case (Inr ps)
    have "trace_blind (and_then (deletePods_loop cl ps) (checkRolloutStatus env ns))"
      by (rule trace_blind_and_then [OF deletePods_loop_blind checkRolloutStatus_blind])
    from trace_blindD [OF this, of w1] obtain r w' u where
      rest: "\<And>t. and_then (deletePods_loop cl ps) (checkRolloutStatus env ns) \<lparr>world = w1, trace = t\<rparr>
          = (r, \<lparr>world = w', trace = t @ u\<rparr>)"
      by blast
    have "deletePods env cl d ns \<lparr>world = w, trace = t\<rparr>
        = and_then (deletePods_loop cl ps) (checkRolloutStatus env ns)
            \<lparr>world = w1, trace = t @ [EvListPods (dep_selector d) (Inr ps)]\<rparr>" for t
      by (simp add: deletePods_def ls Inr logged_def err_of_def and_then_def)
    then have "deletePods env cl d ns \<lparr>world = w, trace = t\<rparr>
        = (r, \<lparr>world = w', trace = t @ (EvListPods (dep_selector d) (Inr ps) # u)\<rparr>)" for t
      by (simp add: rest)
    then show ?thesis by blast
  qed
qed

lemma restartDeployment_olmLoop_Cons:
  "restartDeployment_olmLoop env cl (d # ds) ns =
     and_then (deletePods env cl d ns) (\<lambda>st. restartDeployment_olmLoop env cl ds ns st)"
  by (rule ext) (simp add: and_then_def)

lemma restartDeployment_olmLoop_blind:
  "trace_blind (\<lambda>st. restartDeployment_olmLoop env cl ds ns st)"
proof (induction ds)
  case Nil
  show ?case by (simp add: trace_blind_return)
next
  case (Cons d ds)
  have "(\<lambda>st. restartDeployment_olmLoop env cl (d # ds) ns st)
      = and_then (deletePods env cl d ns) (\<lambda>st. restartDeployment_olmLoop env cl ds ns st)"
    by (rule ext) (simp add: and_then_def)
  then show ?case
    by (simp only: trace_blind_and_then [OF deletePods_blind Cons.IH])
qed

lemma restartDeployment_nonOlmLoop_blind:
  "trace_blind (\<lambda>st. restartDeployment_nonOlmLoop env ds ns st)"
proof (induction ds)
  case Nil
  show ?case by (simp add: trace_blind_return)
next
  case (Cons d ds)
  have "(\<lambda>st. restartDeployment_nonOlmLoop env (d # ds) ns st)
      = and_then (restartNonOlmDeployments env ns d)
          (and_then (checkRolloutStatus env ns) (\<lambda>st. restartDeployment_nonOlmLoop env ds ns st))"
    by (rule ext) (simp add: and_then_def split: prod.splits outcome.splits)
  then show ?case
    by (simp only: trace_blind_and_then [OF restartNonOlmDeployments_blind
          trace_blind_and_then [OF checkRolloutStatus_blind Cons.IH]])
qed

lemma restartDeployment_blind: "trace_blind (restartDeployment env cl ns)"
proof (rule trace_blindI)
  fix w
  let ?olmL = "[(''olm.owner.kind'', ''ClusterServiceVersion'')]"
  let ?nonL = "[(''provider'', ''codeready-toolchain'')]"
  obtain x1 w1 where l1: "list_deployments cl ns ?olmL w = (x1, w1)"
    by (cases "list_deployments cl ns ?olmL w")
  obtain x2 w2 where l2: "list_deployments cl ns ?nonL w1 = (x2, w2)"
    by (cases "list_deployments cl ns ?nonL w1")
  show "\<exists>r w' u. \<forall>t. restartDeployment env cl ns \<lparr>world = w, trace = t\<rparr>
      = (r, \<lparr>world = w', trace = t @ u\<rparr>)"
  proof (cases x1)
    case (Inl e)
    then have "restartDeployment env cl ns \<lparr>world = w, trace = t\<rparr>
        = (Fail e, \<lparr>world = w1, trace = t @ [EvListDeployments ns ?olmL (Inl e)]\<rparr>)" for t
      by (simp add: restartDeployment_def getExistingDeployments_def l1 logged_def err_of_def)
    then show ?thesis by blast
  next
    case (Inr olm)
    note olm = this
    show ?thesis
    proof (cases x2)
      case (Inl e)
      then have "restartDeployment env cl ns \<lparr>world = w, trace = t\<rparr>
          = (Fail e, \<lparr>world = w2, trace = t @ [EvListDeployments ns ?olmL (Inr olm),
                EvListDeployments ns ?nonL (Inl e)]\<rparr>)" for t
        by (simp add: restartDeployment_def getExistingDeployments_def l1 l2 olm logged_def
            err_of_def)
      then show ?thesis by blast
    next
      case (Inr nonOlm)
      have "trace_blind (and_then (\<lambda>st. restartDeployment_olmLoop env cl olm ns st)
              (\<lambda>st. restartDeployment_nonOlmLoop env nonOlm ns st))"
        by (rule trace_blind_and_then
            [OF restartDeployment_olmLoop_blind restartDeployment_nonOlmLoop_blind])
      from trace_blindD [OF this, of w2] obtain r w' u where
        rest: "\<And>t. and_then (\<lambda>st. restartDeployment_olmLoop env cl olm ns st)
              (\<lambda>st. restartDeployment_nonOlmLoop env nonOlm ns st) \<lparr>world = w2, trace = t\<rparr>
            = (r, \<lparr>world = w', trace = t @ u\<rparr>)"
        by blast
      have "restartDeployment env cl ns \<lparr>world = w, trace = t\<rparr>
          = and_then (\<lambda>st. restartDeployment_olmLoop env cl olm ns st)
              (\<lambda>st. restartDeployment_nonOlmLoop env nonOlm ns st)
              \<lparr>world = w2, trace = t @ [EvListDeployments ns ?olmL (Inr olm),
                EvListDeployments ns ?nonL (Inr nonOlm)]\<rparr>" for t
        by (simp add: restartDeployment_def getExistingDeployments_def l1 l2 olm Inr logged_def
            err_of_def and_then_def split: prod.splits outcome.splits)
      then have "restartDeployment env cl ns \<lparr>world = w, trace = t\<rparr>
          = (r, \<lparr>world = w', trace = t @ (EvListDeployments ns ?olmL (Inr olm)
                # EvListDeployments ns ?nonL (Inr nonOlm) # u)\<rparr>)" for t
        by (simp add: rest)
      then show ?thesis by blast
    qed
  qed
qed

lemma foo_run:
  "restart (memEnv True) ''host'' [''foo''] (start scenarioCluster) =
    (Val (),
     \<lparr>world = scenarioCluster\<lparr>pods := [podOf ''registration-service'' ''a'']\<rparr>,
      trace = EvConfirm (confirmationMessage ''foo'' ''host-operator-ns'') True #
              [EvListDeployments ''host-operator-ns'' [(''olm.owner.kind'', ''ClusterServiceVersion'')] (Inr [hostOperator]),
               EvListDeployments ''host-operator-ns'' [(''provider'', ''codeready-toolchain'')]
                 (Inr [registrationService]),
               EvListPods (nameSelector ''host-operator'')
                 (Inr [podOf ''host-operator'' ''a'', podOf ''host-operator'' ''b'',
                       podOf ''host-operator'' ''c'']),
               EvDeletePod (podOf ''host-operator'' ''a'') None,
               EvDeletePod (podOf ''host-operator'' ''b'') None,
               EvDeletePod (podOf ''host-operator'' ''c'') None,
               EvRolloutStatus (statusCmd ''host-operator-ns'') None,
               EvRolloutRestart (restartOpts ''host-operator-ns'' registrationService) None,
               EvRolloutStatus (statusCmd ''host-operator-ns'') None]\<rparr>)"
  by (simp add: mem_defs fun_defs)

section \<open>An empty ownership class\<close>

text \<open>
  Claim C1 says that \<open>restartDeployment\<close> returns a not-found error and changes nothing
  when the lifecycle-managed list or the directly-owned list is empty. The source tests
  the two list pointers against \<open>nil\<close>, and \<open>getExistingDeployments\<close> never returns a
  \<open>nil\<close> list without an error (\<open>getExistingDeployments_phases\<close>), so neither message is
  ever returned; the second test also stands after the recycling loop. Evaluated on the
  namespace that holds only \<open>host-operator\<close>: discovery gives an empty directly-owned
  list, the three pods are deleted and the run returns \<open>nil\<close>. On the namespace that holds
  only \<open>registration-service\<close>: the deployment is restarted and the run returns \<open>nil\<close>.
\<close>

theorem empty_class_is_not_rejected:
  "getExistingDeployments memClient ''host-operator-ns'' (start onlyLifecycleManaged) =
     ((Some [hostOperator], Some [], None),
      \<lparr>world = onlyLifecycleManaged,
       trace = [EvListDeployments ''host-operator-ns'' [(''olm.owner.kind'', ''ClusterServiceVersion'')] (Inr [hostOperator]),
                EvListDeployments ''host-operator-ns'' [(''provider'', ''codeready-toolchain'')]
                 (Inr [])]\<rparr>)
   \<and> restartDeployment (memEnv True) memClient ''host-operator-ns'' (start onlyLifecycleManaged) =
     (Val (),
      \<lparr>world = onlyLifecycleManaged\<lparr>pods := [podOf ''registration-service'' ''a'']\<rparr>,
       trace = [EvListDeployments ''host-operator-ns'' [(''olm.owner.kind'', ''ClusterServiceVersion'')] (Inr [hostOperator]),
                EvListDeployments ''host-operator-ns'' [(''provider'', ''codeready-toolchain'')]
                 (Inr []),
                EvListPods (nameSelector ''host-operator'')
                  (Inr [podOf ''host-operator'' ''a'', podOf ''host-operator'' ''b'',
                        podOf ''host-operator'' ''c'']),
                EvDeletePod (podOf ''host-operator'' ''a'') None,
                EvDeletePod (podOf ''host-operator'' ''b'') None,
                EvDeletePod (podOf ''host-operator'' ''c'') None,
                EvRolloutStatus (statusCmd ''host-operator-ns'') None]\<rparr>)
   \<and> restartDeployment (memEnv True) memClient ''host-operator-ns'' (start onlyDirectlyOwned) =
     (Val (),
      \<lparr>world = onlyDirectlyOwned,
       trace = [EvListDeployments ''host-operator-ns'' [(''olm.owner.kind'', ''ClusterServiceVersion'')] (Inr []),
                EvListDeployments ''host-operator-ns'' [(''provider'', ''codeready-toolchain'')]
                 (Inr [registrationService]),
                EvRolloutRestart (restartOpts ''host-operator-ns'' registrationService) None,
                EvRolloutStatus (statusCmd ''host-operator-ns'') None]\<rparr>)"
  by (simp add: mem_defs fun_defs)

section \<open>The two ownership classes\<close>

text \<open>
  Claim C2 says that no deployment appears in both lists of \<open>getExistingDeployments\<close>.
  The two lists are two independent label queries, so a deployment that carries both the
  lifecycle-owner label and the provider label is returned by both.
\<close>

theorem discovery_classes_overlap:
  "getExistingDeployments memClient ''host-operator-ns'' (start dualCluster) =
     ((Some [dualLabelled], Some [dualLabelled], None),
      \<lparr>world = dualCluster,
       trace = [EvListDeployments ''host-operator-ns'' [(''olm.owner.kind'', ''ClusterServiceVersion'')] (Inr [dualLabelled]),
                EvListDeployments ''host-operator-ns'' [(''provider'', ''codeready-toolchain'')]
                 (Inr [dualLabelled])]\<rparr>)"
  by (simp add: mem_defs fun_defs)

text \<open>
  Claim C2, amended. Against a cluster that answers a label query with the deployments of
  the namespace carrying that label, the lifecycle-managed list holds exactly the
  deployments of the namespace labelled \<open>olm.owner.kind=ClusterServiceVersion\<close>, the
  directly-owned list exactly those labelled \<open>provider=codeready-toolchain\<close>, and a
  deployment is in both lists exactly when it carries both labels.
\<close>

theorem discovery_by_label:
  "\<exists>olm nonOlm st'.
     getExistingDeployments memClient ns st = ((Some olm, Some nonOlm, None), st')
     \<and> (\<forall>d. d \<in> set olm \<longleftrightarrow>
           d \<in> set (deployments (world st)) \<and> dep_namespace d = ns
           \<and> map_of (dep_labels d) ''olm.owner.kind'' = Some ''ClusterServiceVersion'')
     \<and> (\<forall>d. d \<in> set nonOlm \<longleftrightarrow>
           d \<in> set (deployments (world st)) \<and> dep_namespace d = ns
           \<and> map_of (dep_labels d) ''provider'' = Some ''codeready-toolchain'')
     \<and> (\<forall>d. d \<in> set olm \<and> d \<in> set nonOlm \<longleftrightarrow>
           d \<in> set (deployments (world st)) \<and> dep_namespace d = ns
           \<and> map_of (dep_labels d) ''olm.owner.kind'' = Some ''ClusterServiceVersion''
           \<and> map_of (dep_labels d) ''provider'' = Some ''codeready-toolchain'')"
  by (auto simp: getExistingDeployments_def memClient_def has_labels_def Let_def logged_def
      err_of_def)

section \<open>The scenario of the spec\<close>

text \<open>
  Claim C5. When discovery finds one lifecycle-managed deployment \<open>d1\<close> and one
  directly-owned deployment \<open>d2\<close>, \<open>d1\<close> has the three pods \<open>p1\<close>, \<open>p2\<close>, \<open>p3\<close>, the
  prompt is answered yes and every call succeeds, then \<open>restart\<close> makes exactly these
  calls, in this order: the prompt, the two listings, the pod listing, the three pod
  deletions, a rollout-status wait, the restart of \<open>d2\<close>, a second rollout-status wait;
  and it returns \<open>nil\<close>. The cluster may change with every call (\<open>w0\<close> to \<open>w9\<close>).
\<close>

theorem scenario_sequence:
  assumes "loadClusterConfig env clusterName = Inr cfg"
    and "newClient env (cfg_token cfg) (cfg_serverAPI cfg) = Inr cl"
    and "ns = cfg_operatorNamespace cfg"
    and "askForConfirmation env (confirmationMessage operatorType ns)"
    and "list_deployments cl ns [(''olm.owner.kind'', ''ClusterServiceVersion'')] w0 = (Inr [d1], w1)"
    and "list_deployments cl ns [(''provider'', ''codeready-toolchain'')] w1 = (Inr [d2], w2)"
    and "list_pods cl (dep_selector d1) w2 = (Inr [p1, p2, p3], w3)"
    and "delete_pod cl p1 w3 = (None, w4)"
    and "delete_pod cl p2 w4 = (None, w5)"
    and "delete_pod cl p3 w5 = (None, w6)"
    and "statusComplete env [''deployment''] = None"
    and "statusValidate env (statusCmd ns) = None"
    and "statusRun env (statusCmd ns) w6 = (None, w7)"
    and "restartComplete env [''deployments''] = None"
    and "restartValidate env (restartOpts ns d2) = None"
    and "runRestart env (restartOpts ns d2) w7 = (None, w8)"
    and "statusRun env (statusCmd ns) w8 = (None, w9)"
  shows "restart env clusterName (operatorType # rest) (start w0) =
    (Val (),
     \<lparr>world = w9,
      trace = [EvConfirm (confirmationMessage operatorType ns) True,
               EvListDeployments ns [(''olm.owner.kind'', ''ClusterServiceVersion'')] (Inr [d1]),
               EvListDeployments ns [(''provider'', ''codeready-toolchain'')] (Inr [d2]),
               EvListPods (dep_selector d1) (Inr [p1, p2, p3]),
               EvDeletePod p1 None,
               EvDeletePod p2 None,
               EvDeletePod p3 None,
               EvRolloutStatus (statusCmd ns) None,
               EvRolloutRestart (restartOpts ns d2) None,
               EvRolloutStatus (statusCmd ns) None]\<rparr>)"
proof -
  have disc: "getExistingDeployments cl ns \<lparr>world = w0, trace = t\<rparr> =
      ((Some [d1], Some [d2], None),
       \<lparr>world = w2, trace = t @ [EvListDeployments ns [(''olm.owner.kind'', ''ClusterServiceVersion'')] (Inr [d1]),
               EvListDeployments ns [(''provider'', ''codeready-toolchain'')] (Inr [d2])]\<rparr>)" for t
    using assms(5,6) by (simp add: getExistingDeployments_def logged_def)
  have chk1: "checkRolloutStatus env ns \<lparr>world = w6, trace = t\<rparr> =
      (Val (), \<lparr>world = w7, trace = t @ [EvRolloutStatus (statusCmd ns) None]\<rparr>)" for t
    using assms(11,12,13)
    by (simp add: checkRolloutStatus_def logged_def returned_def statusCmd_def)
  have chk2: "checkRolloutStatus env ns \<lparr>world = w8, trace = t\<rparr> =
      (Val (), \<lparr>world = w9, trace = t @ [EvRolloutStatus (statusCmd ns) None]\<rparr>)" for t
    using assms(11,12,17)
    by (simp add: checkRolloutStatus_def logged_def returned_def statusCmd_def)
  have del: "deletePods env cl d1 ns \<lparr>world = w2, trace = t\<rparr> =
      (Val (), \<lparr>world = w7, trace = t @ [EvListPods (dep_selector d1) (Inr [p1, p2, p3]), EvDeletePod p1 None,
          EvDeletePod p2 None, EvDeletePod p3 None, EvRolloutStatus (statusCmd ns) None]\<rparr>)" for t
    using assms(7,8,9,10) by (simp add: deletePods_def logged_def chk1)
  have rst: "restartNonOlmDeployments env ns d2 \<lparr>world = w7, trace = t\<rparr> =
      (Val (), \<lparr>world = w8, trace = t @ [EvRolloutRestart (restartOpts ns d2) None]\<rparr>)" for t
    using assms(14,15,16)
    by (simp add: restartNonOlmDeployments_def logged_def returned_def restartOpts_def)
  have rd: "restartDeployment env cl ns \<lparr>world = w0, trace = t\<rparr> =
      (Val (), \<lparr>world = w9, trace = t @
         [EvListDeployments ns [(''olm.owner.kind'', ''ClusterServiceVersion'')] (Inr [d1]),
          EvListDeployments ns [(''provider'', ''codeready-toolchain'')] (Inr [d2]),
          EvListPods (dep_selector d1) (Inr [p1, p2, p3]), EvDeletePod p1 None,
          EvDeletePod p2 None, EvDeletePod p3 None, EvRolloutStatus (statusCmd ns) None,
          EvRolloutRestart (restartOpts ns d2) None, EvRolloutStatus (statusCmd ns) None]\<rparr>)" for t
    by (simp add: restartDeployment_def disc del rst chk2)
  have "restart env clusterName (operatorType # rest) (start w0) =
      restartDeployment env cl ns
        \<lparr>world = w0, trace = [EvConfirm (confirmationMessage operatorType ns) True]\<rparr>"
    using assms(1,2,4) unfolding assms(3)
    by (simp add: restart_def start_def logged_def)
  then show ?thesis by (simp add: rd)
qed

text \<open>The in-memory cluster of the scenario, where each deletion removes its pod.\<close>

theorem scenario_sequence_witness:
  "restart (memEnv True) ''host'' [''host''] (start scenarioCluster) =
    (Val (),
     \<lparr>world = scenarioCluster\<lparr>pods := [podOf ''registration-service'' ''a'']\<rparr>,
      trace = [EvConfirm (confirmationMessage ''host'' ''host-operator-ns'') True,
               EvListDeployments ''host-operator-ns'' [(''olm.owner.kind'', ''ClusterServiceVersion'')] (Inr [hostOperator]),
               EvListDeployments ''host-operator-ns'' [(''provider'', ''codeready-toolchain'')]
                 (Inr [registrationService]),
               EvListPods (dep_selector hostOperator)
                 (Inr [podOf ''host-operator'' ''a'', podOf ''host-operator'' ''b'',
                       podOf ''host-operator'' ''c'']),
               EvDeletePod (podOf ''host-operator'' ''a'') None,
               EvDeletePod (podOf ''host-operator'' ''b'') None,
               EvDeletePod (podOf ''host-operator'' ''c'') None,
               EvRolloutStatus (statusCmd ''host-operator-ns'') None,
               EvRolloutRestart (restartOpts ''host-operator-ns'' registrationService) None,
               EvRolloutStatus (statusCmd ''host-operator-ns'') None]\<rparr>)"
proof (rule scenario_sequence [where cfg = hostConfig and cl = memClient
      and ?d1.0 = hostOperator and ?d2.0 = registrationService
      and ?w1.0 = scenarioCluster and ?w2.0 = scenarioCluster and ?w3.0 = scenarioCluster
      and ?w4.0 = "scenarioCluster\<lparr>pods := [podOf ''host-operator'' ''b'',
            podOf ''host-operator'' ''c'', podOf ''registration-service'' ''a'']\<rparr>"
      and ?w5.0 = "scenarioCluster\<lparr>pods := [podOf ''host-operator'' ''c'',
            podOf ''registration-service'' ''a'']\<rparr>"
      and ?w6.0 = "scenarioCluster\<lparr>pods := [podOf ''registration-service'' ''a'']\<rparr>"
      and ?w7.0 = "scenarioCluster\<lparr>pods := [podOf ''registration-service'' ''a'']\<rparr>"
      and ?w8.0 = "scenarioCluster\<lparr>pods := [podOf ''registration-service'' ''a'']\<rparr>"])
  show "loadClusterConfig (memEnv True) ''host'' = Inr hostConfig"
    by (simp add: memEnv_def)
  show "newClient (memEnv True) (cfg_token hostConfig) (cfg_serverAPI hostConfig) = Inr memClient"
    by (simp add: memEnv_def)
  show "''host-operator-ns'' = cfg_operatorNamespace hostConfig"
    by (simp add: hostConfig_def)
  show "askForConfirmation (memEnv True) (confirmationMessage ''host'' ''host-operator-ns'')"
    by (simp add: memEnv_def)
qed (simp_all add: mem_defs)

section \<open>The operator type\<close>

text \<open>
  Claim C10. \<open>restart\<close> never compares the operator type with \<open>host\<close>, \<open>member-1\<close> or
  \<open>member-2\<close>: for any two values (the empty string included) to whose prompts the user
  gives the same answer, both runs ask for confirmation, return the same, leave the same
  cluster and make the same calls after the prompt; only the text of the prompt differs.
\<close>

theorem operator_type_only_in_prompt:
  assumes "loadClusterConfig env clusterName = Inr cfg"
    and "newClient env (cfg_token cfg) (cfg_serverAPI cfg) = Inr cl"
    and "ns = cfg_operatorNamespace cfg"
    and "askForConfirmation env (confirmationMessage op1 ns)
          = askForConfirmation env (confirmationMessage op2 ns)"
  shows "\<exists>r w' a u.
      restart env clusterName [op1] (start w)
        = (r, \<lparr>world = w', trace = EvConfirm (confirmationMessage op1 ns) a # u\<rparr>)
    \<and> restart env clusterName [op2] (start w)
        = (r, \<lparr>world = w', trace = EvConfirm (confirmationMessage op2 ns) a # u\<rparr>)"
proof (cases "askForConfirmation env (confirmationMessage op1 ns)")
  case False
  with assms(4) have no: "\<not> askForConfirmation env (confirmationMessage op2 ns)" by simp
  have "restart env clusterName [op1] (start w)
        = (Val (), \<lparr>world = w, trace = EvConfirm (confirmationMessage op1 ns) False # []\<rparr>)"
    using assms(1,2) False unfolding assms(3)
    by (simp add: restart_def start_def logged_def)
  moreover have "restart env clusterName [op2] (start w)
        = (Val (), \<lparr>world = w, trace = EvConfirm (confirmationMessage op2 ns) False # []\<rparr>)"
    using assms(1,2) no unfolding assms(3)
    by (simp add: restart_def start_def logged_def)
  ultimately show ?thesis by blast
next
  case True
  with assms(4) have yes: "askForConfirmation env (confirmationMessage op2 ns)" by simp
  from trace_blindD [OF restartDeployment_blind, of env cl ns w] obtain r w' u where
    rd: "\<And>t. restartDeployment env cl ns \<lparr>world = w, trace = t\<rparr>
          = (r, \<lparr>world = w', trace = t @ u\<rparr>)"
    by blast
  have "restart env clusterName [op1] (start w)
        = restartDeployment env cl ns
            \<lparr>world = w, trace = [EvConfirm (confirmationMessage op1 ns) True]\<rparr>"
    using assms(1,2) True unfolding assms(3)
    by (simp add: restart_def start_def logged_def)
  then have one: "restart env clusterName [op1] (start w)
        = (r, \<lparr>world = w', trace = EvConfirm (confirmationMessage op1 ns) True # u\<rparr>)"
    by (simp add: rd)
  have "restart env clusterName [op2] (start w)
        = restartDeployment env cl ns
            \<lparr>world = w, trace = [EvConfirm (confirmationMessage op2 ns) True]\<rparr>"
    using assms(1,2) yes unfolding assms(3)
    by (simp add: restart_def start_def logged_def)
  then have two: "restart env clusterName [op2] (start w)
        = (r, \<lparr>world = w', trace = EvConfirm (confirmationMessage op2 ns) True # u\<rparr>)"
    by (simp add: rd)
  from one two show ?thesis by blast
qed

text \<open>The operator type \<open>foo\<close> restarts the host operator just as \<open>host\<close> does.\<close>

theorem operator_type_only_in_prompt_witness:
  "restart (memEnv True) ''host'' [''foo''] (start scenarioCluster) =
    (Val (),
     \<lparr>world = scenarioCluster\<lparr>pods := [podOf ''registration-service'' ''a'']\<rparr>,
      trace = EvConfirm (confirmationMessage ''foo'' ''host-operator-ns'') True #
              [EvListDeployments ''host-operator-ns'' [(''olm.owner.kind'', ''ClusterServiceVersion'')] (Inr [hostOperator]),
               EvListDeployments ''host-operator-ns'' [(''provider'', ''codeready-toolchain'')]
                 (Inr [registrationService]),
               EvListPods (nameSelector ''host-operator'')
                 (Inr [podOf ''host-operator'' ''a'', podOf ''host-operator'' ''b'',
                       podOf ''host-operator'' ''c'']),
               EvDeletePod (podOf ''host-operator'' ''a'') None,
               EvDeletePod (podOf ''host-operator'' ''b'') None,
               EvDeletePod (podOf ''host-operator'' ''c'') None,
               EvRolloutStatus (statusCmd ''host-operator-ns'') None,
               EvRolloutRestart (restartOpts ''host-operator-ns'' registrationService) None,
               EvRolloutStatus (statusCmd ''host-operator-ns'') None]\<rparr>)
   \<and> restart (memEnv True) ''host'' [''host''] (start scenarioCluster) =
    (Val (),
     \<lparr>world = scenarioCluster\<lparr>pods := [podOf ''registration-service'' ''a'']\<rparr>,
      trace = EvConfirm (confirmationMessage ''host'' ''host-operator-ns'') True #
              [EvListDeployments ''host-operator-ns'' [(''olm.owner.kind'', ''ClusterServiceVersion'')] (Inr [hostOperator]),
               EvListDeployments ''host-operator-ns'' [(''provider'', ''codeready-toolchain'')]
                 (Inr [registrationService]),
               EvListPods (nameSelector ''host-operator'')
                 (Inr [podOf ''host-operator'' ''a'', podOf ''host-operator'' ''b'',
                       podOf ''host-operator'' ''c'']),
               EvDeletePod (podOf ''host-operator'' ''a'') None,
               EvDeletePod (podOf ''host-operator'' ''b'') None,
               EvDeletePod (podOf ''host-operator'' ''c'') None,
               EvRolloutStatus (statusCmd ''host-operator-ns'') None,
               EvRolloutRestart (restartOpts ''host-operator-ns'' registrationService) None,
               EvRolloutStatus (statusCmd ''host-operator-ns'') None]\<rparr>)"
proof -
  have cfg: "loadClusterConfig (memEnv True) ''host'' = Inr hostConfig"
    and cl: "newClient (memEnv True) (cfg_token hostConfig) (cfg_serverAPI hostConfig) = Inr memClient"
    and same: "askForConfirmation (memEnv True) (confirmationMessage ''foo'' ''host-operator-ns'')
          = askForConfirmation (memEnv True) (confirmationMessage ''host'' ''host-operator-ns'')"
    by (simp_all add: memEnv_def)
  have ns: "''host-operator-ns'' = cfg_operatorNamespace hostConfig"
    by (simp add: hostConfig_def)
  from operator_type_only_in_prompt [OF cfg cl ns same, of scenarioCluster]
  obtain r w' a u where
    one: "restart (memEnv True) ''host'' [''foo''] (start scenarioCluster)
        = (r, \<lparr>world = w', trace = EvConfirm (confirmationMessage ''foo'' ''host-operator-ns'') a # u\<rparr>)"
    and two: "restart (memEnv True) ''host'' [''host''] (start scenarioCluster)
        = (r, \<lparr>world = w', trace = EvConfirm (confirmationMessage ''host'' ''host-operator-ns'') a # u\<rparr>)"
    by blast
  from one have "r = Val ()"
    and "w' = scenarioCluster\<lparr>pods := [podOf ''registration-service'' ''a'']\<rparr>"
    and "a = True"
    and "u = [EvListDeployments ''host-operator-ns'' [(''olm.owner.kind'', ''ClusterServiceVersion'')] (Inr [hostOperator]),
               EvListDeployments ''host-operator-ns'' [(''provider'', ''codeready-toolchain'')]
                 (Inr [registrationService]),
               EvListPods (nameSelector ''host-operator'')
                 (Inr [podOf ''host-operator'' ''a'', podOf ''host-operator'' ''b'',
                       podOf ''host-operator'' ''c'']),
               EvDeletePod (podOf ''host-operator'' ''a'') None,
               EvDeletePod (podOf ''host-operator'' ''b'') None,
               EvDeletePod (podOf ''host-operator'' ''c'') None,
               EvRolloutStatus (statusCmd ''host-operator-ns'') None,
               EvRolloutRestart (restartOpts ''host-operator-ns'' registrationService) None,
               EvRolloutStatus (statusCmd ''host-operator-ns'') None]"
    unfolding foo_run by simp_all
  with two show ?thesis by (simp add: foo_run)
qed

end
